theory Spec2Isabelle
  imports Main "HOL-Library.Word"
begin

section \<open>The select-query builder of bun (\<^verbatim>\<open>query_select.go\<close>)\<close>

text \<open>
  The development embeds \<^verbatim>\<open>SelectQuery\<close> of \<^verbatim>\<open>src/query_select.go\<close>: the
  builder state, the chained configuration operations, the renderer
  \<^verbatim>\<open>appendQuery\<close> and the execution entry points \<^verbatim>\<open>Rows\<close>, \<^verbatim>\<open>Exec\<close>,
  \<^verbatim>\<open>Scan\<close> and \<^verbatim>\<open>Count\<close>.

  Go byte slices and strings are \<open>string\<close> (lists of bytes). An operation that mutates
  the builder through its pointer receiver and returns that pointer is a function from
  the builder state to the new state. A Go \<^verbatim>\<open>error\<close> return is the left summand of
  a sum; a run-time panic is the error value \<open>Panic\<close>.
\<close>

subsection \<open>Errors\<close>

datatype error = Err string | Panic string

text \<open>
  \<^verbatim>\<open>b, err = x.Append...(fmter, b); if err != nil { return nil, err }\<close>: the statement
  that every appender call of the file is followed by. \<open>bindE\<close> is that early return.
\<close>

definition bindE :: "error + 'a \<Rightarrow> ('a \<Rightarrow> error + 'b) \<Rightarrow> error + 'b" where
  "bindE m f = (case m of Inl e \<Rightarrow> Inl e | Inr x \<Rightarrow> f x)"

text \<open>
  The appenders that are not defined in \<^verbatim>\<open>query_select.go\<close> (fragments, the
  \<^verbatim>\<open>WITH\<close>, \<^verbatim>\<open>FROM\<close> and \<^verbatim>\<open>WHERE\<close> clauses of the base query, the joins of a
  relation) are represented by the text they append to the buffer, or the error they
  return: \<open>app m b\<close> is the call of such an appender, of text \<open>m\<close>, on the buffer \<open>b\<close>.
\<close>

definition app :: "error + string \<Rightarrow> string \<Rightarrow> error + string" where
  "app m b = (case m of Inl e \<Rightarrow> Inl e | Inr s \<Rightarrow> Inr (b @ s))"

subsection \<open>Fragments\<close>

text \<open>
  \<^verbatim>\<open>schema.QueryWithArgs\<close> has a template \<^verbatim>\<open>Query\<close> and arguments \<^verbatim>\<open>Args\<close>; the file
  tests \<^verbatim>\<open>Args == nil\<close>, so the nil slice is \<open>None\<close>. \<^verbatim>\<open>schema.QueryWithSep\<close>
  embeds it and adds the separator \<^verbatim>\<open>Sep\<close>. Of the arguments only the two kinds the
  file builds itself are told apart: \<^verbatim>\<open>Ident(field)\<close> and \<^verbatim>\<open>Safe(sort)\<close>.
\<close>

datatype arg = Ident string | Safe string | Other string

record QueryWithArgs =
  Query :: string
  Args :: "arg list option"

record QueryWithSep = QueryWithArgs +
  Sep :: string

text \<open>
  Modelled from the spec: \<^verbatim>\<open>schema.UnsafeIdent\<close>, \<^verbatim>\<open>schema.SafeQuery\<close> and
  \<^verbatim>\<open>schema.SafeQueryWithSep\<close> are not in the source files at hand. By the spec a safe
  fragment is a template with its argument list, and an unsafe fragment is a raw
  identifier inserted verbatim, with no arguments.
\<close>

definition UnsafeIdent :: "string \<Rightarrow> QueryWithArgs" where
  "UnsafeIdent ident = \<lparr>Query = ident, Args = None\<rparr>"

definition SafeQuery :: "string \<Rightarrow> arg list \<Rightarrow> QueryWithArgs" where
  "SafeQuery query args = \<lparr>Query = query, Args = Some args\<rparr>"

definition SafeQueryWithSep :: "string \<Rightarrow> arg list \<Rightarrow> string \<Rightarrow> QueryWithSep" where
  "SafeQueryWithSep query args sep = \<lparr>Query = query, Args = Some args, Sep = sep\<rparr>"

definition IsZero :: "QueryWithArgs \<Rightarrow> bool" where
  "IsZero f \<longleftrightarrow> Query f = [] \<and> Args f = None"

subsection \<open>Table metadata and relation joins\<close>

text \<open>
  Of \<^verbatim>\<open>schema.Field\<close> and \<^verbatim>\<open>schema.Table\<close> the file reads \<^verbatim>\<open>Name\<close>, \<^verbatim>\<open>SQLName\<close>,
  \<^verbatim>\<open>SQLAlias\<close>, \<^verbatim>\<open>Fields\<close> and \<^verbatim>\<open>FieldMap\<close>.
\<close>

record Field =
  Name :: string
  SQLName :: string

record Table =
  SQLAlias :: string
  Fields :: "Field list"
  FieldMap :: "string \<rightharpoonup> Field"

text \<open>
  The file names the relation kinds \<^verbatim>\<open>schema.HasOneRelation\<close> and
  \<^verbatim>\<open>schema.BelongsToRelation\<close>, and treats every other kind alike (the \<^verbatim>\<open>default\<close>
  branch of \<^verbatim>\<open>selectJoins\<close>). Modelled from the spec: the names of the other kinds are
  not in the source files at hand; the spec lists a to-many and a via-junction
  (many-to-many) kind.
\<close>

datatype RelationType =
  InvalidRelation | HasOneRelation | BelongsToRelation | HasManyRelation | ManyToManyRelation

text \<open>
  A \<^verbatim>\<open>join\<close> is read through \<^verbatim>\<open>j.Relation.Type\<close>, \<^verbatim>\<open>j.columns\<close>,
  \<^verbatim>\<open>j.JoinModel.Table().Fields\<close> and \<^verbatim>\<open>j.JoinModel.GetJoins()\<close>, the joins of the joined
  model. \<open>Relation_Name\<close> only tells joins apart.
\<close>

datatype join = Join
  (Relation_Type: RelationType)
  (Relation_Name: string)
  (join_columns: "QueryWithArgs list option")
  (JoinModel_Fields: "Field list")
  (JoinModel_GetJoins: "join list")

record tableModel =
  GetJoins :: "join list"

subsection \<open>The builder state\<close>

text \<open>
  \<^verbatim>\<open>joinQuery\<close> is declared in the file. \<^verbatim>\<open>SelectQuery\<close> embeds \<^verbatim>\<open>whereBaseQuery\<close>,
  which embeds \<^verbatim>\<open>baseQuery\<close>; their declarations are not in the source files at hand,
  and they are given the fields that the file reads and writes (the database handles
  \<^verbatim>\<open>db\<close> and \<^verbatim>\<open>conn\<close> apart: execution is modelled by an explicit driver).
  The fields \<^verbatim>\<open>where\<close>, \<^verbatim>\<open>with\<close>, \<^verbatim>\<open>group\<close> and \<^verbatim>\<open>union\<close> carry the suffix \<open>_q\<close>:
  their names are reserved in Isabelle. A nil slice that the code tells from an empty
  one (\<^verbatim>\<open>columns\<close>, \<^verbatim>\<open>distinctOn\<close>) is an \<open>option\<close>.
\<close>

record joinQuery =
  join :: QueryWithArgs
  on :: "QueryWithSep list"

datatype QueryAppender = QueryAppender string

record baseQuery =
  err :: "error option"
  tableModel :: "tableModel option"
  table :: "Table option"
  with_q :: "(string \<times> QueryAppender) list"
  modelTable :: QueryWithArgs
  tables :: "QueryWithArgs list"
  columns :: "QueryWithArgs list option"

record whereBaseQuery = baseQuery +
  where_q :: "QueryWithSep list"

record selectFields = whereBaseQuery +
  distinctOn :: "QueryWithArgs list option"
  joins :: "joinQuery list"
  group_q :: "QueryWithArgs list"
  having :: "QueryWithArgs list"
  order :: "QueryWithArgs list"
  limit :: "32 word"
  offset :: "32 word"
  selFor :: QueryWithArgs

text \<open>
  The \<^verbatim>\<open>union\<close> field holds pointers to other select queries, so the type is recursive:
  \<open>SelectQuery\<close> pairs the fields above with the list of set operations. A query that
  is (directly or indirectly) a set-operation member of itself, on which the Go renderer
  does not return, has no counterpart here.
\<close>

datatype SelectQuery = SelectQuery
  (core: selectFields)
  (union_q: "(string \<times> SelectQuery) list")

definition upd :: "(selectFields \<Rightarrow> selectFields) \<Rightarrow> SelectQuery \<Rightarrow> SelectQuery" where
  "upd f q = SelectQuery (f (core q)) (union_q q)"

text \<open>\<^verbatim>\<open>NewSelectQuery\<close>: every field has its zero value.\<close>

definition zeroQuery :: QueryWithArgs where
  "zeroQuery = \<lparr>Query = [], Args = None\<rparr>"

definition NewSelectQuery :: SelectQuery where
  "NewSelectQuery = SelectQuery
     \<lparr>err = None, tableModel = None, table = None, with_q = [], modelTable = zeroQuery,
      tables = [], columns = None, where_q = [], distinctOn = None, joins = [],
      group_q = [], having = [], order = [], limit = 0, offset = 0, selFor = zeroQuery\<rparr> []"

subsection \<open>Configuration operations\<close>

text \<open>
  Modelled from the spec: \<^verbatim>\<open>setErr\<close>, \<^verbatim>\<open>addTable\<close>, \<^verbatim>\<open>addColumn\<close>, \<^verbatim>\<open>addWhere\<close> and
  \<^verbatim>\<open>addWhereGroup\<close> of the base query are not in the source files at hand. By the spec
  the builder has a first-error slot and accumulates the fragments of each clause in
  order; a group of conditions is appended to the conditions of the builder. How the
  group is delimited is the parameter \<open>grp\<close>: the entries that stand for the group of
  separator \<open>sep\<close> and conditions \<open>ws\<close>.
\<close>

definition setErr :: "error \<Rightarrow> SelectQuery \<Rightarrow> SelectQuery" where
  "setErr e q = (if err (core q) = None then upd (\<lambda>f. f\<lparr>err := Some e\<rparr>) q else q)"

definition addTable :: "QueryWithArgs \<Rightarrow> SelectQuery \<Rightarrow> SelectQuery" where
  "addTable t q = upd (\<lambda>f. f\<lparr>tables := tables f @ [t]\<rparr>) q"

definition addColumn :: "QueryWithArgs \<Rightarrow> SelectQuery \<Rightarrow> SelectQuery" where
  "addColumn c q =
     upd (\<lambda>f. f\<lparr>columns := Some ((case columns f of None \<Rightarrow> [] | Some cs \<Rightarrow> cs) @ [c])\<rparr>) q"

definition addWhere :: "QueryWithSep \<Rightarrow> SelectQuery \<Rightarrow> SelectQuery" where
  "addWhere w q = upd (\<lambda>f. f\<lparr>where_q := where_q f @ [w]\<rparr>) q"

definition addWhereGroup ::
  "(string \<Rightarrow> QueryWithSep list \<Rightarrow> QueryWithSep list) \<Rightarrow>
   string \<Rightarrow> QueryWithSep list \<Rightarrow> SelectQuery \<Rightarrow> SelectQuery" where
  "addWhereGroup grp sep ws q = upd (\<lambda>f. f\<lparr>where_q := where_q f @ grp sep ws\<rparr>) q"

definition Distinct :: "SelectQuery \<Rightarrow> SelectQuery" where
  "Distinct q = upd (\<lambda>f. f\<lparr>distinctOn := Some []\<rparr>) q"

definition DistinctOn :: "string \<Rightarrow> arg list \<Rightarrow> SelectQuery \<Rightarrow> SelectQuery" where
  "DistinctOn query args q =
     upd (\<lambda>f. f\<lparr>distinctOn :=
       Some ((case distinctOn f of None \<Rightarrow> [] | Some ds \<Rightarrow> ds) @ [SafeQuery query args])\<rparr>) q"

definition Table_q :: "string list \<Rightarrow> SelectQuery \<Rightarrow> SelectQuery" where
  "Table_q ts q = foldl (\<lambda>q t. addTable (UnsafeIdent t) q) q ts"

definition TableExpr :: "string \<Rightarrow> arg list \<Rightarrow> SelectQuery \<Rightarrow> SelectQuery" where
  "TableExpr query args q = addTable (SafeQuery query args) q"

definition ModelTableExpr :: "string \<Rightarrow> arg list \<Rightarrow> SelectQuery \<Rightarrow> SelectQuery" where
  "ModelTableExpr query args q = upd (\<lambda>f. f\<lparr>modelTable := SafeQuery query args\<rparr>) q"

definition Column :: "string list \<Rightarrow> SelectQuery \<Rightarrow> SelectQuery" where
  "Column cs q = foldl (\<lambda>q c. addColumn (UnsafeIdent c) q) q cs"

definition ColumnExpr :: "string \<Rightarrow> arg list \<Rightarrow> SelectQuery \<Rightarrow> SelectQuery" where
  "ColumnExpr query args q = addColumn (SafeQuery query args) q"

definition Where :: "string \<Rightarrow> arg list \<Rightarrow> SelectQuery \<Rightarrow> SelectQuery" where
  "Where query args q = addWhere (SafeQueryWithSep query args '' AND '') q"

definition WhereOr :: "string \<Rightarrow> arg list \<Rightarrow> SelectQuery \<Rightarrow> SelectQuery" where
  "WhereOr query args q = addWhere (SafeQueryWithSep query args '' OR '') q"

text \<open>
  \<^verbatim>\<open>WhereGroup\<close> saves \<^verbatim>\<open>q.where\<close>, sets it to nil, calls \<^verbatim>\<open>fn\<close>, takes the conditions
  of the builder that \<^verbatim>\<open>fn\<close> returns, puts the saved conditions back and adds the group.
\<close>

definition WhereGroup ::
  "(string \<Rightarrow> QueryWithSep list \<Rightarrow> QueryWithSep list) \<Rightarrow>
   string \<Rightarrow> (SelectQuery \<Rightarrow> SelectQuery) \<Rightarrow> SelectQuery \<Rightarrow> SelectQuery" where
  "WhereGroup grp sep fn q =
     (let saved = where_q (core q);
          q = upd (\<lambda>f. f\<lparr>where_q := []\<rparr>) q;
          q = fn q;
          wh = where_q (core q);
          q = upd (\<lambda>f. f\<lparr>where_q := saved\<rparr>) q
      in addWhereGroup grp sep wh q)"

definition Group :: "string list \<Rightarrow> SelectQuery \<Rightarrow> SelectQuery" where
  "Group cs q = foldl (\<lambda>q c. upd (\<lambda>f. f\<lparr>group_q := group_q f @ [UnsafeIdent c]\<rparr>) q) q cs"

definition GroupExpr :: "string \<Rightarrow> arg list \<Rightarrow> SelectQuery \<Rightarrow> SelectQuery" where
  "GroupExpr g args q = upd (\<lambda>f. f\<lparr>group_q := group_q f @ [SafeQuery g args]\<rparr>) q"

definition Having :: "string \<Rightarrow> arg list \<Rightarrow> SelectQuery \<Rightarrow> SelectQuery" where
  "Having h args q = upd (\<lambda>f. f\<lparr>having := having f @ [SafeQuery h args]\<rparr>) q"

text \<open>
  \<^verbatim>\<open>Order\<close>. \<^verbatim>\<open>strings.IndexByte\<close> is the index of the first occurrence of a byte, or
  \<open>-1\<close>. \<^verbatim>\<open>strings.ToUpper\<close> belongs to the Go library and is the parameter \<open>up\<close> of the
  model; \<open>asciiUpper\<close> is what it computes on ASCII strings.
\<close>

fun IndexByte :: "string \<Rightarrow> char \<Rightarrow> int" where
  "IndexByte [] c = - 1"
| "IndexByte (x # xs) c =
     (if x = c then 0 else (let i = IndexByte xs c in if i = - 1 then - 1 else i + 1))"

definition asciiUpper :: "string \<Rightarrow> string" where
  "asciiUpper s =
     map (\<lambda>c. case map_of (zip ''abcdefghijklmnopqrstuvwxyz'' ''ABCDEFGHIJKLMNOPQRSTUVWXYZ'') c of
                 Some u \<Rightarrow> u | None \<Rightarrow> c) s"

definition sortDirections :: "string list" where
  "sortDirections =
     [''ASC'', ''DESC'', ''ASC NULLS FIRST'', ''DESC NULLS FIRST'',
      ''ASC NULLS LAST'', ''DESC NULLS LAST'']"

definition orderStep :: "(string \<Rightarrow> string) \<Rightarrow> SelectQuery \<Rightarrow> string \<Rightarrow> SelectQuery" where
  "orderStep up q ord =
     (if ord = [] then q
      else
        let index = IndexByte ord CHR '' '' in
        if index = - 1 then upd (\<lambda>f. f\<lparr>order := order f @ [UnsafeIdent ord]\<rparr>) q
        else
          let field = take (nat index) ord;
              sort = drop (nat (index + 1)) ord
          in if up sort \<in> set sortDirections
             then upd (\<lambda>f. f\<lparr>order := order f @ [SafeQuery ''? ?'' [Ident field, Safe sort]]\<rparr>) q
             else upd (\<lambda>f. f\<lparr>order := order f @ [UnsafeIdent ord]\<rparr>) q)"

definition Order :: "(string \<Rightarrow> string) \<Rightarrow> string list \<Rightarrow> SelectQuery \<Rightarrow> SelectQuery" where
  "Order up orders q = foldl (orderStep up) q orders"

definition OrderExpr :: "string \<Rightarrow> arg list \<Rightarrow> SelectQuery \<Rightarrow> SelectQuery" where
  "OrderExpr query args q = upd (\<lambda>f. f\<lparr>order := order f @ [SafeQuery query args]\<rparr>) q"

text \<open>
  \<^verbatim>\<open>Limit\<close> and \<^verbatim>\<open>Offset\<close> take a Go \<^verbatim>\<open>int\<close> (64 bits) and store \<^verbatim>\<open>int32(n)\<close>: the low
  32 bits.
\<close>

definition Limit :: "64 word \<Rightarrow> SelectQuery \<Rightarrow> SelectQuery" where
  "Limit n q = upd (\<lambda>f. f\<lparr>limit := ucast n\<rparr>) q"

definition Offset :: "64 word \<Rightarrow> SelectQuery \<Rightarrow> SelectQuery" where
  "Offset n q = upd (\<lambda>f. f\<lparr>offset := ucast n\<rparr>) q"

definition For :: "string \<Rightarrow> arg list \<Rightarrow> SelectQuery \<Rightarrow> SelectQuery" where
  "For s args q = upd (\<lambda>f. f\<lparr>selFor := SafeQuery s args\<rparr>) q"

definition addUnion :: "string \<Rightarrow> SelectQuery \<Rightarrow> SelectQuery \<Rightarrow> SelectQuery" where
  "addUnion expr other q = SelectQuery (core q) (union_q q @ [(expr, other)])"

definition Union_q :: "SelectQuery \<Rightarrow> SelectQuery \<Rightarrow> SelectQuery" where
  "Union_q other q = addUnion '' UNION '' other q"

definition UnionAll :: "SelectQuery \<Rightarrow> SelectQuery \<Rightarrow> SelectQuery" where
  "UnionAll other q = addUnion '' UNION ALL '' other q"

definition Intersect :: "SelectQuery \<Rightarrow> SelectQuery \<Rightarrow> SelectQuery" where
  "Intersect other q = addUnion '' INTERSECT '' other q"

definition IntersectAll :: "SelectQuery \<Rightarrow> SelectQuery \<Rightarrow> SelectQuery" where
  "IntersectAll other q = addUnion '' INTERSECT ALL '' other q"

definition Except :: "SelectQuery \<Rightarrow> SelectQuery \<Rightarrow> SelectQuery" where
  "Except other q = addUnion '' EXCEPT '' other q"

definition ExceptAll :: "SelectQuery \<Rightarrow> SelectQuery \<Rightarrow> SelectQuery" where
  "ExceptAll other q = addUnion '' EXCEPT ALL '' other q"

definition Join_q :: "string \<Rightarrow> arg list \<Rightarrow> SelectQuery \<Rightarrow> SelectQuery" where
  "Join_q j args q = upd (\<lambda>f. f\<lparr>joins := joins f @ [\<lparr>join = SafeQuery j args, on = []\<rparr>]\<rparr>) q"

text \<open>
  \<^verbatim>\<open>joinOn\<close> assigns \<^verbatim>\<open>q.err\<close> when there is no join; otherwise it appends the
  condition to the last join.
\<close>

definition errNoJoins :: error where
  "errNoJoins = Err ''bun: query has no joins''"

definition joinOn :: "string \<Rightarrow> arg list \<Rightarrow> string \<Rightarrow> SelectQuery \<Rightarrow> SelectQuery" where
  "joinOn cond args sep q =
     (if length (joins (core q)) = 0 then upd (\<lambda>f. f\<lparr>err := Some errNoJoins\<rparr>) q
      else upd (\<lambda>f. f\<lparr>joins := butlast (joins f) @
             [(last (joins f))\<lparr>on := on (last (joins f)) @ [SafeQueryWithSep cond args sep]\<rparr>]\<rparr>) q)"

definition JoinOn :: "string \<Rightarrow> arg list \<Rightarrow> SelectQuery \<Rightarrow> SelectQuery" where
  "JoinOn cond args q = joinOn cond args '' AND '' q"

definition JoinOnOr :: "string \<Rightarrow> arg list \<Rightarrow> SelectQuery \<Rightarrow> SelectQuery" where
  "JoinOnOr cond args q = joinOn cond args '' OR '' q"

subsection \<open>What the renderer calls outside the file\<close>

text \<open>
  The renderer calls functions of the repository that are not in the source files at
  hand. They are the fields of an environment \<open>env\<close>, over a type \<open>'f\<close> of formatters
  (\<^verbatim>\<open>schema.Formatter\<close>); every theorem below holds for every environment. An appender
  is given by the text it appends (see \<open>app\<close>):
  \<^item> \<open>formatterWithModel\<close>, \<open>IsNop\<close>: \<^verbatim>\<open>formatterWithModel(fmter, q)\<close>, \<^verbatim>\<open>fmter.IsNop()\<close>;
  \<^item> \<open>AppendArgs\<close>: \<^verbatim>\<open>(schema.QueryWithArgs).AppendQuery\<close>, the rendering of a fragment;
  \<^item> \<open>AppendString\<close>: \<^verbatim>\<open>dialect.AppendString\<close>, a quoted string literal;
  \<^item> \<open>appendFields\<close>: the package-level \<^verbatim>\<open>appendColumns(b, alias, fields)\<close>;
  \<^item> \<open>appendWith\<close>, \<open>hasTables\<close>, \<open>appendTablesWithAlias\<close>, \<open>appendWhere\<close>: the methods
    of the embedded base query, which see its fields only;
  \<^item> \<open>appendHasOneJoin\<close>, \<open>applyQuery\<close>, \<open>appendAlias\<close>, \<open>appendAliasColumn\<close>: the methods
    of \<^verbatim>\<open>join\<close>. \<^verbatim>\<open>applyQuery\<close> stores columns in the join; the model returns that join.
\<close>

record 'f env =
  formatterWithModel :: "'f \<Rightarrow> SelectQuery \<Rightarrow> 'f"
  IsNop :: "'f \<Rightarrow> bool"
  AppendArgs :: "'f \<Rightarrow> QueryWithArgs \<Rightarrow> error + string"
  AppendString :: "string \<Rightarrow> string"
  appendFields :: "string \<Rightarrow> Field list \<Rightarrow> string"
  appendWith :: "'f \<Rightarrow> baseQuery \<Rightarrow> error + string"
  hasTables :: "baseQuery \<Rightarrow> bool"
  appendTablesWithAlias :: "'f \<Rightarrow> baseQuery \<Rightarrow> error + string"
  appendWhere :: "'f \<Rightarrow> whereBaseQuery \<Rightarrow> bool \<Rightarrow> error + string"
  appendHasOneJoin :: "'f \<Rightarrow> join \<Rightarrow> SelectQuery \<Rightarrow> error + string"
  applyQuery :: "join \<Rightarrow> SelectQuery \<Rightarrow> join"
  appendAlias :: "'f \<Rightarrow> join \<Rightarrow> string"
  appendAliasColumn :: "'f \<Rightarrow> join \<Rightarrow> string \<Rightarrow> string"

subsection \<open>Go library functions\<close>

text \<open>
  \<^verbatim>\<open>strconv.AppendInt(b, i, 10)\<close> and \<^verbatim>\<open>fmt.Sprintf("%d columns", n)\<close> write decimal
  numerals; \<^verbatim>\<open>bytes.TrimSuffix\<close> removes a suffix that is there.
\<close>

function decimal :: "nat \<Rightarrow> string" where
  "decimal n =
     (if n < 10 then [''0123456789'' ! n]
      else decimal (n div 10) @ [''0123456789'' ! (n mod 10)])"
  by pat_completeness auto
termination
  by (relation "measure (\<lambda>n. n)") auto

declare decimal.simps [simp del]

definition AppendInt :: "string \<Rightarrow> int \<Rightarrow> string" where
  "AppendInt b i = b @ (if i < 0 then CHR ''-'' # decimal (nat (- i)) else decimal (nat i))"

definition TrimSuffix :: "string \<Rightarrow> string \<Rightarrow> string" where
  "TrimSuffix b suf =
     (if length suf \<le> length b \<and> drop (length b - length suf) b = suf
      then take (length b - length suf) b else b)"

text \<open>Reading a field through a nil pointer panics.\<close>

definition nilDeref :: error where
  "nilDeref = Panic ''invalid memory address or nil pointer dereference''"

subsection \<open>The renderer\<close>

definition appendArgs :: "'f env \<Rightarrow> 'f \<Rightarrow> QueryWithArgs \<Rightarrow> string \<Rightarrow> error + string" where
  "appendArgs env fmter f b = app (AppendArgs env fmter f) b"

text \<open>
  The loop \<^verbatim>\<open>for i, f := range fs { if i > 0 { b = append(b, ", "...) }; b, err =
  f.AppendQuery(fmter, b); ... }\<close> of \<^verbatim>\<open>DISTINCT ON\<close>, \<^verbatim>\<open>GROUP BY\<close> and \<^verbatim>\<open>ORDER BY\<close>;
  \<open>i\<close> is the index the loop has reached.
\<close>

fun appendList :: "'f env \<Rightarrow> 'f \<Rightarrow> QueryWithArgs list \<Rightarrow> nat \<Rightarrow> string \<Rightarrow> error + string" where
  "appendList env fmter [] i b = Inr b"
| "appendList env fmter (f # fs) i b =
     bindE (appendArgs env fmter f (if i > 0 then b @ '', '' else b))
       (\<lambda>b. appendList env fmter fs (i + 1) b)"

text \<open>The loop of \<^verbatim>\<open>HAVING\<close>.\<close>

fun appendHaving :: "'f env \<Rightarrow> 'f \<Rightarrow> QueryWithArgs list \<Rightarrow> nat \<Rightarrow> string \<Rightarrow> error + string" where
  "appendHaving env fmter [] i b = Inr b"
| "appendHaving env fmter (f # fs) i b =
     bindE (appendArgs env fmter f ((if i > 0 then b @ '' AND '' else b) @ ''(''))
       (\<lambda>b. appendHaving env fmter fs (i + 1) (b @ '')''))"

text \<open>\<^verbatim>\<open>(*joinQuery).AppendQuery\<close> and the loop over \<^verbatim>\<open>q.joins\<close>.\<close>

fun appendOn :: "'f env \<Rightarrow> 'f \<Rightarrow> QueryWithSep list \<Rightarrow> nat \<Rightarrow> string \<Rightarrow> error + string" where
  "appendOn env fmter [] i b = Inr b"
| "appendOn env fmter (c # cs) i b =
     bindE (appendArgs env fmter (QueryWithArgs.truncate c) ((if i > 0 then b @ Sep c else b) @ ''(''))
       (\<lambda>b. appendOn env fmter cs (i + 1) (b @ '')''))"

definition joinQuery_AppendQuery :: "'f env \<Rightarrow> 'f \<Rightarrow> joinQuery \<Rightarrow> string \<Rightarrow> error + string" where
  "joinQuery_AppendQuery env fmter j b =
     bindE (appendArgs env fmter (join j) (b @ '' ''))
       (\<lambda>b. if length (on j) > 0 then appendOn env fmter (on j) 0 (b @ '' ON '') else Inr b)"

fun appendJoins :: "'f env \<Rightarrow> 'f \<Rightarrow> joinQuery list \<Rightarrow> string \<Rightarrow> error + string" where
  "appendJoins env fmter [] b = Inr b"
| "appendJoins env fmter (j # js) b =
     bindE (joinQuery_AppendQuery env fmter j b) (\<lambda>b. appendJoins env fmter js b)"

text \<open>
  \<^verbatim>\<open>_forEachHasOneJoin\<close>: \<^verbatim>\<open>fn\<close> on every has-one and belongs-to join, and then on the
  joins of the joined model. The callbacks of the file update variables they capture;
  \<open>'s\<close> is the type of those variables.
\<close>

fun forEachHasOneJoin_rec :: "(join \<Rightarrow> 's \<Rightarrow> error + 's) \<Rightarrow> join list \<Rightarrow> 's \<Rightarrow> error + 's" where
  "forEachHasOneJoin_rec fn [] s = Inr s"
| "forEachHasOneJoin_rec fn (Join ty nm cols flds sub # js) s =
     (if ty = HasOneRelation \<or> ty = BelongsToRelation
      then bindE (fn (Join ty nm cols flds sub) s)
             (\<lambda>s. bindE (forEachHasOneJoin_rec fn sub s) (\<lambda>s. forEachHasOneJoin_rec fn js s))
      else forEachHasOneJoin_rec fn js s)"

definition forEachHasOneJoin ::
  "(join \<Rightarrow> 's \<Rightarrow> error + 's) \<Rightarrow> SelectQuery \<Rightarrow> 's \<Rightarrow> error + 's" where
  "forEachHasOneJoin fn q s =
     (case tableModel (core q) of None \<Rightarrow> Inr s
      | Some tm \<Rightarrow> forEachHasOneJoin_rec fn (GetJoins tm) s)"

text \<open>
  The loop of \<^verbatim>\<open>appendColumns\<close> over the explicit columns. A column without
  arguments is looked up in \<^verbatim>\<open>q.table.FieldMap\<close>, which reads through \<^verbatim>\<open>q.table\<close>.
\<close>

fun appendColumnList ::
  "'f env \<Rightarrow> 'f \<Rightarrow> Table option \<Rightarrow> QueryWithArgs list \<Rightarrow> nat \<Rightarrow> string \<Rightarrow> error + string" where
  "appendColumnList env fmter tbl [] i b = Inr b"
| "appendColumnList env fmter tbl (col # cols) i b =
     (let b = (if i > 0 then b @ '', '' else b) in
      if Args col = None then
        (case tbl of
           None \<Rightarrow> Inl nilDeref
         | Some t \<Rightarrow>
             (case FieldMap t (Query col) of
                Some field \<Rightarrow>
                  appendColumnList env fmter tbl cols (i + 1) (b @ SQLAlias t @ ''.'' @ SQLName field)
              | None \<Rightarrow>
                  bindE (appendArgs env fmter col b)
                    (\<lambda>b. appendColumnList env fmter tbl cols (i + 1) b)))
      else bindE (appendArgs env fmter col b)
             (\<lambda>b. appendColumnList env fmter tbl cols (i + 1) b))"

text \<open>\<^verbatim>\<open>appendHasOneColumns\<close>: its loop over \<^verbatim>\<open>join.columns\<close>, and its loop over the fields.\<close>

fun appendJoinColumnList ::
  "'f env \<Rightarrow> 'f \<Rightarrow> Table option \<Rightarrow> join \<Rightarrow> QueryWithArgs list \<Rightarrow> nat \<Rightarrow> string \<Rightarrow> error + string" where
  "appendJoinColumnList env fmter tbl j [] i b = Inr b"
| "appendJoinColumnList env fmter tbl j (col # cols) i b =
     (let b = (if i > 0 then b @ '', '' else b) in
      if Args col = None then
        (case tbl of
           None \<Rightarrow> Inl nilDeref
         | Some t \<Rightarrow>
             (case FieldMap t (Query col) of
                Some field \<Rightarrow>
                  appendJoinColumnList env fmter tbl j cols (i + 1)
                    (b @ appendAlias env fmter j @ ''.'' @ SQLName field @ '' AS '' @
                     appendAliasColumn env fmter j (Name field))
              | None \<Rightarrow>
                  bindE (appendArgs env fmter col b)
                    (\<lambda>b. appendJoinColumnList env fmter tbl j cols (i + 1) b)))
      else bindE (appendArgs env fmter col b)
             (\<lambda>b. appendJoinColumnList env fmter tbl j cols (i + 1) b))"

fun appendJoinFields :: "'f env \<Rightarrow> 'f \<Rightarrow> join \<Rightarrow> Field list \<Rightarrow> nat \<Rightarrow> string \<Rightarrow> string" where
  "appendJoinFields env fmter j [] i b = b"
| "appendJoinFields env fmter j (field # fs) i b =
     appendJoinFields env fmter j fs (i + 1)
       ((if i > 0 then b @ '', '' else b) @ appendAlias env fmter j @ ''.'' @ SQLName field @
        '' AS '' @ appendAliasColumn env fmter j (Name field))"

definition appendHasOneColumns ::
  "'f env \<Rightarrow> 'f \<Rightarrow> SelectQuery \<Rightarrow> string \<Rightarrow> join \<Rightarrow> error + string" where
  "appendHasOneColumns env fmter q b j0 =
     (let j = applyQuery env j0 q in
      case join_columns j of
        Some cols \<Rightarrow> appendJoinColumnList env fmter (table (core q)) j cols 0 b
      | None \<Rightarrow> Inr (appendJoinFields env fmter j (JoinModel_Fields j) 0 b))"

text \<open>
  \<^verbatim>\<open>appendColumns\<close>. The callback of \<^verbatim>\<open>forEachHasOneJoin\<close> captures \<^verbatim>\<open>b\<close> and
  \<^verbatim>\<open>start\<close>.
\<close>

definition appendColumns :: "'f env \<Rightarrow> 'f \<Rightarrow> SelectQuery \<Rightarrow> string \<Rightarrow> error + string" where
  "appendColumns env fmter q b =
     (let start = length b in
      bindE
        (case columns (core q) of
           Some cols \<Rightarrow> appendColumnList env fmter (table (core q)) cols 0 b
         | None \<Rightarrow>
             (case table (core q) of
                Some t \<Rightarrow>
                  if length (Fields t) > 10 \<and> IsNop env fmter
                  then Inr (b @ SQLAlias t @ ''.'' @
                            AppendString env (decimal (length (Fields t)) @ '' columns''))
                  else Inr (b @ appendFields env (SQLAlias t) (Fields t))
              | None \<Rightarrow> Inr (b @ ''*'')))
        (\<lambda>b. bindE
           (forEachHasOneJoin
              (\<lambda>j (b, start).
                 let (b, start) =
                       (if length b \<noteq> start then (b @ '', '', length (b @ '', '')) else (b, start))
                 in bindE (appendHasOneColumns env fmter q b j) (\<lambda>b. Inr (b, start)))
              q (b, start))
           (\<lambda>(b, start). Inr (TrimSuffix b '', ''))))"

definition appendTables :: "'f env \<Rightarrow> 'f \<Rightarrow> SelectQuery \<Rightarrow> string \<Rightarrow> error + string" where
  "appendTables env fmter q b =
     app (appendTablesWithAlias env fmter (baseQuery.truncate (core q))) (b @ '' FROM '')"

definition appendOrder :: "'f env \<Rightarrow> 'f \<Rightarrow> SelectQuery \<Rightarrow> string \<Rightarrow> error + string" where
  "appendOrder env fmter q b =
     (if length (order (core q)) > 0
      then appendList env fmter (order (core q)) 0 (b @ '' ORDER BY '')
      else Inr b)"

text \<open>
  \<^verbatim>\<open>appendQuery\<close>, in two parts. \<open>cteCount\<close> is its local variable. \<open>appendSelect\<close> is
  the body from the \<^verbatim>\<open>WITH _count_wrapper\<close> prefix to the locking clause; \<open>appendQuery\<close>
  is the check of \<^verbatim>\<open>q.err\<close>, that body, the set operations and the suffix of the count
  wrapper. \<open>appendUnion\<close> is the loop over \<^verbatim>\<open>q.union\<close>, which calls the exported
  \<^verbatim>\<open>AppendQuery\<close> of each member: \<^verbatim>\<open>appendQuery\<close> with the formatter of that member and
  \<^verbatim>\<open>count = false\<close>.
\<close>

definition cteCount :: "SelectQuery \<Rightarrow> bool \<Rightarrow> bool" where
  "cteCount q count \<longleftrightarrow>
     count \<and> (length (group_q (core q)) > 0 \<or> distinctOn (core q) \<noteq> None)"

definition appendSelect :: "'f env \<Rightarrow> 'f \<Rightarrow> SelectQuery \<Rightarrow> string \<Rightarrow> bool \<Rightarrow> error + string" where
  "appendSelect env fmter q b count =
     (let b = (if cteCount q count then b @ ''WITH _count_wrapper AS ('' else b);
          b = (if length (union_q q) > 0 then b @ ''('' else b)
      in
      bindE (app (appendWith env fmter (baseQuery.truncate (core q))) b) (\<lambda>b.
      let b = b @ ''SELECT '' in
      bindE (case distinctOn (core q) of
               None \<Rightarrow> Inr b
             | Some [] \<Rightarrow> Inr (b @ ''DISTINCT '')
             | Some (d # ds) \<Rightarrow>
                 bindE (appendList env fmter (d # ds) 0 (b @ ''DISTINCT ON (''))
                   (\<lambda>b. Inr (b @ '') ''))) (\<lambda>b.
      bindE (if count \<and> \<not> cteCount q count then Inr (b @ ''count(*)'')
             else appendColumns env fmter q b) (\<lambda>b.
      bindE (if hasTables env (baseQuery.truncate (core q)) then appendTables env fmter q b
             else Inr b) (\<lambda>b.
      bindE (forEachHasOneJoin (\<lambda>j b. app (appendHasOneJoin env fmter j q) (b @ '' '')) q b) (\<lambda>b.
      bindE (appendJoins env fmter (joins (core q)) b) (\<lambda>b.
      bindE (app (appendWhere env fmter (whereBaseQuery.truncate (core q)) True) b) (\<lambda>b.
      bindE (if length (group_q (core q)) > 0
             then appendList env fmter (group_q (core q)) 0 (b @ '' GROUP BY '')
             else Inr b) (\<lambda>b.
      bindE (if length (having (core q)) > 0
             then appendHaving env fmter (having (core q)) 0 (b @ '' HAVING '')
             else Inr b) (\<lambda>b.
      if \<not> count then
        bindE (appendOrder env fmter q b) (\<lambda>b.
        let b = (if limit (core q) \<noteq> 0
                 then AppendInt (b @ '' LIMIT '') (sint (limit (core q))) else b);
            b = (if offset (core q) \<noteq> 0
                 then AppendInt (b @ '' OFFSET '') (sint (offset (core q))) else b)
        in if \<not> IsZero (selFor (core q))
           then appendArgs env fmter (selFor (core q)) (b @ '' FOR '')
           else Inr b)
      else Inr b))))))))))"

fun appendQuery :: "'f env \<Rightarrow> 'f \<Rightarrow> SelectQuery \<Rightarrow> string \<Rightarrow> bool \<Rightarrow> error + string"
  and appendUnion :: "'f env \<Rightarrow> 'f \<Rightarrow> (string \<times> SelectQuery) list \<Rightarrow> string \<Rightarrow> error + string" where
  "appendQuery env fmter (SelectQuery f us) b count =
     (case err f of
        Some e \<Rightarrow> Inl e
      | None \<Rightarrow>
          bindE (appendSelect env fmter (SelectQuery f us) b count) (\<lambda>b.
          bindE (if length us > 0 then appendUnion env fmter us (b @ '')'') else Inr b) (\<lambda>b.
          Inr (if cteCount (SelectQuery f us) count
               then b @ '') SELECT count(*) FROM _count_wrapper'' else b))))"
| "appendUnion env fmter [] b = Inr b"
| "appendUnion env fmter ((expr, u) # us) b =
     bindE (appendQuery env (formatterWithModel env fmter u) u (b @ expr @ ''('') False)
       (\<lambda>b. appendUnion env fmter us (b @ '')''))"

text \<open>The exported \<^verbatim>\<open>AppendQuery\<close>, and \<^verbatim>\<open>countQuery.AppendQuery\<close>.\<close>

definition AppendQuery :: "'f env \<Rightarrow> 'f \<Rightarrow> SelectQuery \<Rightarrow> string \<Rightarrow> error + string" where
  "AppendQuery env fmter q b = appendQuery env (formatterWithModel env fmter q) q b False"

definition countQuery_AppendQuery :: "'f env \<Rightarrow> 'f \<Rightarrow> SelectQuery \<Rightarrow> string \<Rightarrow> error + string" where
  "countQuery_AppendQuery env fmter q b = appendQuery env (formatterWithModel env fmter q) q b True"

subsection \<open>Relations\<close>

text \<open>
  \<^verbatim>\<open>Relation\<close> calls \<^verbatim>\<open>q.tableModel.Join(name, fn)\<close>, which is not in the source files
  at hand: \<open>tableModel_Join\<close> is its result, \<open>None\<close> for a nil join and otherwise the table
  model with the join added. \<^verbatim>\<open>fmt.Errorf("%s does not have relation=%q", q.table,
  name)\<close> formats the table with \<open>Sprint_table\<close> (its \<^verbatim>\<open>%s\<close> form) and the name with
  \<open>Quote\<close> (\<^verbatim>\<open>%q\<close>, a double-quoted Go string literal). The message of \<^verbatim>\<open>errNilModel\<close>
  is the one the test \<^verbatim>\<open>testNilModel\<close> expects.
\<close>

record relEnv =
  tableModel_Join ::
    "tableModel \<Rightarrow> string \<Rightarrow> (SelectQuery \<Rightarrow> SelectQuery) option \<Rightarrow> tableModel option"
  Sprint_table :: "Table option \<Rightarrow> string"
  Quote :: "string \<Rightarrow> string"

definition errNilModel :: error where
  "errNilModel = Err ''bun: Model(nil)''"

definition errNoRelation :: "relEnv \<Rightarrow> SelectQuery \<Rightarrow> string \<Rightarrow> error" where
  "errNoRelation renv q name =
     Err (Sprint_table renv (table (core q)) @ '' does not have relation='' @ Quote renv name)"

definition Relation ::
  "relEnv \<Rightarrow> string \<Rightarrow> (SelectQuery \<Rightarrow> SelectQuery) list \<Rightarrow> SelectQuery \<Rightarrow> error + SelectQuery" where
  "Relation renv name apply q =
     (case tableModel (core q) of
        None \<Rightarrow> Inr (setErr errNilModel q)
      | Some tm \<Rightarrow>
          if length apply > 1 then Inl (Panic ''only one apply function is supported'')
          else
            let fn = (if length apply = 1 then Some (hd apply) else None) in
            case tableModel_Join renv tm name fn of
              None \<Rightarrow> Inr (setErr (errNoRelation renv q name) q)
            | Some tm' \<Rightarrow> Inr (upd (\<lambda>f. f\<lparr>tableModel := Some tm'\<rparr>) q))"

subsection \<open>Execution\<close>

text \<open>
  What a run does outside the builder is recorded as a trace of events: a call of the
  before-select or after-select hook, a call of the exported \<^verbatim>\<open>AppendQuery\<close> (or of the
  counting render), SQL text handed to the driver, a follow-up query \<^verbatim>\<open>j.Select\<close> of a
  join, and \<^verbatim>\<open>SetCap\<close> on the destination.
\<close>

datatype event =
  SetCap int | BeforeSelectHook | Render | Query_sql string | JoinSelect join | AfterSelectHook

text \<open>
  A destination model answers the type assertions of \<^verbatim>\<open>Scan\<close>: whether it has
  \<^verbatim>\<open>SetCap\<close>, and whether it is a \<^verbatim>\<open>tableModel\<close>.
\<close>

record model =
  has_SetCap :: bool
  as_tableModel :: "tableModel option"

text \<open>
  The database side: \<open>db_fmter\<close> and \<open>makeQueryBytes\<close> are \<^verbatim>\<open>q.db.fmter\<close> and
  \<^verbatim>\<open>q.db.makeQueryBytes()\<close>; \<open>getModel\<close> is \<^verbatim>\<open>q.getModel(dest)\<close>; \<open>QueryContext\<close>,
  \<open>exec\<close>, \<open>scan\<close> (its row count \<^verbatim>\<open>res.n\<close>) and \<open>QueryRow\<close> (the number and the error
  of \<^verbatim>\<open>QueryRowContext(...).Scan(&num)\<close>) are the calls that hand SQL to the driver;
  \<open>join_Select\<close> is \<^verbatim>\<open>j.Select(ctx, q.db.NewSelect())\<close>. \<open>BeforeSelect\<close> and \<open>AfterSelect\<close>
  are the hooks of the zero value of the table's type: \<open>None\<close> when it does not implement
  the hook interface; a hook receives the builder and may change it. The query hooks
  \<^verbatim>\<open>beforeQuery\<close> and \<^verbatim>\<open>afterQuery\<close> of \<^verbatim>\<open>Count\<close> only observe, and are left out.
\<close>

record ('f, 'd, 'r) db =
  db_fmter :: 'f
  makeQueryBytes :: string
  getModel :: "SelectQuery \<Rightarrow> 'd list \<Rightarrow> error + model"
  QueryContext :: "string \<Rightarrow> error + 'r"
  exec :: "string \<Rightarrow> error + 'r"
  scan :: "string \<Rightarrow> model \<Rightarrow> error + int"
  QueryRow :: "string \<Rightarrow> int \<times> error option"
  join_Select :: "join \<Rightarrow> error option"
  BeforeSelect :: "Table \<Rightarrow> (SelectQuery \<Rightarrow> error option \<times> SelectQuery) option"
  AfterSelect :: "Table \<Rightarrow> (SelectQuery \<Rightarrow> error option \<times> SelectQuery) option"

text \<open>\<^verbatim>\<open>selectJoins\<close>: the trace of the follow-up queries and the error returned.\<close>

fun selectJoins :: "('f, 'd, 'r) db \<Rightarrow> join list \<Rightarrow> event list \<times> error option" where
  "selectJoins db [] = ([], None)"
| "selectJoins db (Join ty nm cols flds sub # js) =
     (let (tr, e) =
            (if ty = HasOneRelation \<or> ty = BelongsToRelation then selectJoins db sub
             else ([JoinSelect (Join ty nm cols flds sub)],
                   join_Select db (Join ty nm cols flds sub)))
      in case e of
           Some x \<Rightarrow> (tr, Some x)
         | None \<Rightarrow> (let (tr', e') = selectJoins db js in (tr @ tr', e')))"

text \<open>
  \<^verbatim>\<open>beforeSelectHook\<close> and \<^verbatim>\<open>afterSelectHook\<close> read \<^verbatim>\<open>q.table.ZeroIface\<close>; the result is
  the trace, the error and the builder after the hook.
\<close>

definition beforeSelectHook ::
  "('f, 'd, 'r) db \<Rightarrow> SelectQuery \<Rightarrow> event list \<times> error option \<times> SelectQuery" where
  "beforeSelectHook db q =
     (case table (core q) of
        None \<Rightarrow> ([], Some nilDeref, q)
      | Some t \<Rightarrow>
          (case BeforeSelect db t of
             None \<Rightarrow> ([], None, q)
           | Some hook \<Rightarrow> (let (e, q') = hook q in ([BeforeSelectHook], e, q'))))"

definition afterSelectHook ::
  "('f, 'd, 'r) db \<Rightarrow> SelectQuery \<Rightarrow> event list \<times> error option \<times> SelectQuery" where
  "afterSelectHook db q =
     (case table (core q) of
        None \<Rightarrow> ([], Some nilDeref, q)
      | Some t \<Rightarrow>
          (case AfterSelect db t of
             None \<Rightarrow> ([], None, q)
           | Some hook \<Rightarrow> (let (e, q') = hook q in ([AfterSelectHook], e, q'))))"

definition Rows ::
  "'f env \<Rightarrow> ('f, 'd, 'r) db \<Rightarrow> SelectQuery \<Rightarrow> event list \<times> (error + 'r)" where
  "Rows env db q =
     (case AppendQuery env (db_fmter db) q (makeQueryBytes db) of
        Inl e \<Rightarrow> ([Render], Inl e)
      | Inr query \<Rightarrow> ([Render, Query_sql query], QueryContext db query))"

definition Exec ::
  "'f env \<Rightarrow> ('f, 'd, 'r) db \<Rightarrow> SelectQuery \<Rightarrow> event list \<times> (error + 'r)" where
  "Exec env db q =
     (case AppendQuery env (db_fmter db) q (makeQueryBytes db) of
        Inl e \<Rightarrow> ([Render], Inl e)
      | Inr query \<Rightarrow> ([Render, Query_sql query], exec db query))"

definition Scan ::
  "'f env \<Rightarrow> ('f, 'd, 'r) db \<Rightarrow> SelectQuery \<Rightarrow> 'd list \<Rightarrow> event list \<times> error option" where
  "Scan env db q dest =
     (case getModel db q dest of
        Inl e \<Rightarrow> ([], Some e)
      | Inr m \<Rightarrow>
          let tr0 = (if 1 <s limit (core q) \<and> has_SetCap m
                     then [SetCap (sint (limit (core q)))] else []);
              (tr1, e1, q) = (if table (core q) \<noteq> None then beforeSelectHook db q
                              else ([], None, q))
          in case e1 of
               Some e \<Rightarrow> (tr0 @ tr1, Some e)
             | None \<Rightarrow>
                 (case AppendQuery env (db_fmter db) q (makeQueryBytes db) of
                    Inl e \<Rightarrow> (tr0 @ tr1 @ [Render], Some e)
                  | Inr query \<Rightarrow>
                      (case scan db query m of
                         Inl e \<Rightarrow> (tr0 @ tr1 @ [Render, Query_sql query], Some e)
                       | Inr n \<Rightarrow>
                           let (tr2, e2) =
                                 (if n > 0 then
                                    (case as_tableModel m of
                                       Some tm \<Rightarrow> selectJoins db (GetJoins tm)
                                     | None \<Rightarrow> ([], None))
                                  else ([], None))
                           in case e2 of
                                Some e \<Rightarrow> (tr0 @ tr1 @ [Render, Query_sql query] @ tr2, Some e)
                              | None \<Rightarrow>
                                  let (tr3, e3, q) =
                                        (if table (core q) \<noteq> None then afterSelectHook db q
                                         else ([], None, q))
                                  in (tr0 @ tr1 @ [Render, Query_sql query] @ tr2 @ tr3, e3))))"

definition Count ::
  "'f env \<Rightarrow> ('f, 'd, 'r) db \<Rightarrow> SelectQuery \<Rightarrow> event list \<times> int \<times> error option" where
  "Count env db q =
     (case appendQuery env (db_fmter db) q [] True of
        Inl e \<Rightarrow> ([Render], 0, Some e)
      | Inr query \<Rightarrow> ([Render, Query_sql query], QueryRow db query))"

subsection \<open>The steps of \<^verbatim>\<open>Scan\<close>\<close>

text \<open>
  The blocks of \<^verbatim>\<open>Scan\<close> around the render and the scan, each on its own: the call of
  \<^verbatim>\<open>SetCap\<close> (lines 669 to 673), the before-select hook under \<^verbatim>\<open>q.table != nil\<close> (lines 675
  to 679), the follow-up queries under \<^verbatim>\<open>res.n > 0\<close> and the type assertion (lines 688 to
  694), and the after-select hook under \<^verbatim>\<open>q.table != nil\<close> (lines 696 to 700).
\<close>

definition scanCap :: "SelectQuery \<Rightarrow> model \<Rightarrow> event list" where
  "scanCap q m =
     (if 1 <s limit (core q) \<and> has_SetCap m then [SetCap (sint (limit (core q)))] else [])"




section \<open>The renderer as a sequence of clauses\<close>

text \<open>
  The renderer above threads a buffer through the code. The definitions of this section
  give the text of each clause on its own, block by block of \<^verbatim>\<open>appendQuery\<close>,
  \<^verbatim>\<open>appendColumns\<close> and \<^verbatim>\<open>appendHasOneColumns\<close>, and the statement as the sequence of its
  clauses. The renderer is proved equal to that sequence below.
\<close>

subsection \<open>Sequences of clauses\<close>

text \<open>
  A clause is the text it contributes, or the error that stops the rendering. \<open>seqE\<close> is
  a sequence of clauses in order: the texts one after the other, or the error of the
  first clause that fails. \<open>sepE\<close> is a list of items with a separator between them, and
  \<open>allE\<close> the list of the results. \<open>foldE\<close> folds a step that can fail over a list, from
  the left.
\<close>

fun seqE :: "(error + string) list \<Rightarrow> error + string" where
  "seqE [] = Inr []"
| "seqE (m # ms) = bindE m (\<lambda>s. bindE (seqE ms) (\<lambda>t. Inr (s @ t)))"

definition sepE :: "string \<Rightarrow> (error + string) list \<Rightarrow> error + string" where
  "sepE sep ms =
     (case ms of [] \<Rightarrow> Inr [] | m # ns \<Rightarrow> seqE (m # map (\<lambda>n. seqE [Inr sep, n]) ns))"

fun allE :: "(error + 'a) list \<Rightarrow> error + 'a list" where
  "allE [] = Inr []"
| "allE (m # ms) = bindE m (\<lambda>x. bindE (allE ms) (\<lambda>xs. Inr (x # xs)))"

fun foldE :: "('a \<Rightarrow> 's \<Rightarrow> error + 's) \<Rightarrow> 'a list \<Rightarrow> 's \<Rightarrow> error + 's" where
  "foldE fn [] s = Inr s"
| "foldE fn (x # xs) s = bindE (fn x s) (\<lambda>s. foldE fn xs s)"

subsection \<open>The eager to-one relations of a query\<close>

text \<open>
  The has-one and belongs-to joins of a list of joins, each followed by those of its
  joined model, in declaration order; and those of the table model of a query.
\<close>

fun hasOneJoins :: "join list \<Rightarrow> join list" where
  "hasOneJoins [] = []"
| "hasOneJoins (Join ty nm cols flds sub # js) =
     (if ty = HasOneRelation \<or> ty = BelongsToRelation
      then Join ty nm cols flds sub # hasOneJoins sub @ hasOneJoins js
      else hasOneJoins js)"

definition modelHasOneJoins :: "SelectQuery \<Rightarrow> join list" where
  "modelHasOneJoins q =
     (case tableModel (core q) of None \<Rightarrow> [] | Some tm \<Rightarrow> hasOneJoins (GetJoins tm))"

subsection \<open>The column list of the code\<close>

text \<open>
  \<open>columnText\<close> is one turn of the loop of \<^verbatim>\<open>appendColumns\<close> over the explicit columns
  (lines 515 to 533): a column without arguments is looked up in \<^verbatim>\<open>q.table.FieldMap\<close>, a
  read through \<^verbatim>\<open>q.table\<close>, which is a nil dereference in a query with no table; a name
  that is found is the field qualified by the alias of the table; any other column is
  its fragment. \<open>joinColumnText\<close> is one turn of the loop of \<^verbatim>\<open>appendHasOneColumns\<close> over
  the columns of a relation (lines 574 to 593): the name is looked up in the same map
  \<^verbatim>\<open>q.table.FieldMap\<close>, the one of the table of the query; a name that is found is the
  field with the alias of the join and the relation-prefixed column alias of
  \<open>aliasedField\<close>; any other column is its fragment.
\<close>

definition joinStrings :: "string \<Rightarrow> string list \<Rightarrow> string" where
  "joinStrings sep xs = (case xs of [] \<Rightarrow> [] | x # ys \<Rightarrow> x @ concat (map (\<lambda>y. sep @ y) ys))"

definition columnText :: "'f env \<Rightarrow> 'f \<Rightarrow> Table option \<Rightarrow> QueryWithArgs \<Rightarrow> error + string" where
  "columnText env fmter tbl col =
     (if Args col = None then
        (case tbl of
           None \<Rightarrow> Inl nilDeref
         | Some t \<Rightarrow>
             (case FieldMap t (Query col) of
                Some field \<Rightarrow> Inr (SQLAlias t @ ''.'' @ SQLName field)
              | None \<Rightarrow> AppendArgs env fmter col))
      else AppendArgs env fmter col)"

definition aliasedField :: "'f env \<Rightarrow> 'f \<Rightarrow> join \<Rightarrow> Field \<Rightarrow> string" where
  "aliasedField env fmter j field =
     appendAlias env fmter j @ ''.'' @ SQLName field @ '' AS '' @
     appendAliasColumn env fmter j (Name field)"

definition joinColumnText ::
  "'f env \<Rightarrow> 'f \<Rightarrow> Table option \<Rightarrow> join \<Rightarrow> QueryWithArgs \<Rightarrow> error + string" where
  "joinColumnText env fmter tbl j col =
     (if Args col = None then
        (case tbl of
           None \<Rightarrow> Inl nilDeref
         | Some t \<Rightarrow>
             (case FieldMap t (Query col) of
                Some field \<Rightarrow> Inr (aliasedField env fmter j field)
              | None \<Rightarrow> AppendArgs env fmter col))
      else AppendArgs env fmter col)"

text \<open>
  \<open>columnBase\<close> is the \<^verbatim>\<open>switch\<close> of \<^verbatim>\<open>appendColumns\<close>: the explicit columns if they are
  set; otherwise the fields of the table metadata (for a no-op formatter and a table of
  more than ten fields, the placeholder \<^verbatim>\<open><alias>.<quoted "N columns">\<close> in their place);
  otherwise \<^verbatim>\<open>*\<close>. \<open>columnBlock\<close> is \<^verbatim>\<open>appendHasOneColumns\<close>: the columns of the relation
  if it has some, all fields of the joined table otherwise.
\<close>

definition columnBase :: "'f env \<Rightarrow> 'f \<Rightarrow> SelectQuery \<Rightarrow> error + string" where
  "columnBase env fmter q =
     (case columns (core q) of
        Some cols \<Rightarrow> sepE '', '' (map (columnText env fmter (table (core q))) cols)
      | None \<Rightarrow>
          (case table (core q) of
             Some t \<Rightarrow>
               if length (Fields t) > 10 \<and> IsNop env fmter
               then Inr (SQLAlias t @ ''.'' @
                         AppendString env (decimal (length (Fields t)) @ '' columns''))
               else Inr (appendFields env (SQLAlias t) (Fields t))
           | None \<Rightarrow> Inr ''*''))"

definition columnBlock :: "'f env \<Rightarrow> 'f \<Rightarrow> SelectQuery \<Rightarrow> join \<Rightarrow> error + string" where
  "columnBlock env fmter q j0 =
     (let j = applyQuery env j0 q in
      case join_columns j of
        Some cols \<Rightarrow> sepE '', '' (map (joinColumnText env fmter (table (core q)) j) cols)
      | None \<Rightarrow> Inr (joinStrings '', '' (map (aliasedField env fmter j) (JoinModel_Fields j))))"

text \<open>
  The column list of \<^verbatim>\<open>appendColumns\<close> is the base followed by one block for each eager
  to-one relation; a piece that is not empty is followed by \<^verbatim>\<open>", "\<close> when another piece
  follows, and a final \<^verbatim>\<open>", "\<close> is trimmed.
\<close>

definition joinPieces :: "string list \<Rightarrow> string" where
  "joinPieces ps =
     concat (map (\<lambda>p. if p = [] then [] else p @ '', '') (butlast ps)) @ last ps"

definition columnListText :: "'f env \<Rightarrow> 'f \<Rightarrow> SelectQuery \<Rightarrow> error + string" where
  "columnListText env fmter q =
     bindE (allE (columnBase env fmter q # map (columnBlock env fmter q) (modelHasOneJoins q)))
       (\<lambda>ps. Inr (TrimSuffix (joinPieces ps) '', ''))"

subsection \<open>The other clauses\<close>

text \<open>
  The clauses of a select statement, each one empty when the builder has nothing for it.
  \<open>hasOneJoinsText\<close> are the implicit joins of the eager to-one relations; \<open>joinsText\<close> the
  explicit joins, each with its \<^verbatim>\<open>ON\<close> conditions.
\<close>

definition parenText :: "'f env \<Rightarrow> 'f \<Rightarrow> QueryWithArgs \<Rightarrow> error + string" where
  "parenText env fmter f = seqE [Inr ''('', AppendArgs env fmter f, Inr '')'']"

definition onText :: "'f env \<Rightarrow> 'f \<Rightarrow> QueryWithSep list \<Rightarrow> error + string" where
  "onText env fmter cs =
     (case cs of
        [] \<Rightarrow> Inr []
      | c # ds \<Rightarrow>
          seqE (parenText env fmter (QueryWithArgs.truncate c) #
                map (\<lambda>d. seqE [Inr (Sep d), parenText env fmter (QueryWithArgs.truncate d)]) ds))"

definition joinText :: "'f env \<Rightarrow> 'f \<Rightarrow> joinQuery \<Rightarrow> error + string" where
  "joinText env fmter j =
     seqE [Inr '' '', AppendArgs env fmter (join j),
           (if on j = [] then Inr [] else seqE [Inr '' ON '', onText env fmter (on j)])]"

definition withText :: "'f env \<Rightarrow> 'f \<Rightarrow> SelectQuery \<Rightarrow> error + string" where
  "withText env fmter q = appendWith env fmter (baseQuery.truncate (core q))"

definition distinctText :: "'f env \<Rightarrow> 'f \<Rightarrow> SelectQuery \<Rightarrow> error + string" where
  "distinctText env fmter q =
     (case distinctOn (core q) of
        None \<Rightarrow> Inr []
      | Some [] \<Rightarrow> Inr ''DISTINCT ''
      | Some (d # ds) \<Rightarrow>
          seqE [Inr ''DISTINCT ON ('', sepE '', '' (map (AppendArgs env fmter) (d # ds)),
                Inr '') ''])"

definition fromText :: "'f env \<Rightarrow> 'f \<Rightarrow> SelectQuery \<Rightarrow> error + string" where
  "fromText env fmter q =
     (if hasTables env (baseQuery.truncate (core q))
      then seqE [Inr '' FROM '', appendTablesWithAlias env fmter (baseQuery.truncate (core q))]
      else Inr [])"

definition hasOneJoinsText :: "'f env \<Rightarrow> 'f \<Rightarrow> SelectQuery \<Rightarrow> error + string" where
  "hasOneJoinsText env fmter q =
     seqE (map (\<lambda>j. seqE [Inr '' '', appendHasOneJoin env fmter j q]) (modelHasOneJoins q))"

definition joinsText :: "'f env \<Rightarrow> 'f \<Rightarrow> SelectQuery \<Rightarrow> error + string" where
  "joinsText env fmter q = seqE (map (joinText env fmter) (joins (core q)))"

definition whereText :: "'f env \<Rightarrow> 'f \<Rightarrow> SelectQuery \<Rightarrow> error + string" where
  "whereText env fmter q = appendWhere env fmter (whereBaseQuery.truncate (core q)) True"

definition groupText :: "'f env \<Rightarrow> 'f \<Rightarrow> SelectQuery \<Rightarrow> error + string" where
  "groupText env fmter q =
     (if group_q (core q) = [] then Inr []
      else seqE [Inr '' GROUP BY '', sepE '', '' (map (AppendArgs env fmter) (group_q (core q)))])"

definition havingText :: "'f env \<Rightarrow> 'f \<Rightarrow> SelectQuery \<Rightarrow> error + string" where
  "havingText env fmter q =
     (if having (core q) = [] then Inr []
      else seqE [Inr '' HAVING '', sepE '' AND '' (map (parenText env fmter) (having (core q)))])"

definition orderText :: "'f env \<Rightarrow> 'f \<Rightarrow> SelectQuery \<Rightarrow> error + string" where
  "orderText env fmter q =
     (if order (core q) = [] then Inr []
      else seqE [Inr '' ORDER BY '', sepE '', '' (map (AppendArgs env fmter) (order (core q)))])"

definition limitText :: "SelectQuery \<Rightarrow> string" where
  "limitText q =
     (if limit (core q) = 0 then [] else AppendInt '' LIMIT '' (sint (limit (core q))))"

definition offsetText :: "SelectQuery \<Rightarrow> string" where
  "offsetText q =
     (if offset (core q) = 0 then [] else AppendInt '' OFFSET '' (sint (offset (core q))))"

definition forText :: "'f env \<Rightarrow> 'f \<Rightarrow> SelectQuery \<Rightarrow> error + string" where
  "forText env fmter q =
     (if IsZero (selFor (core q)) then Inr []
      else seqE [Inr '' FOR '', AppendArgs env fmter (selFor (core q))])"

text \<open>
  The statement in three parts around the column list: \<open>headText\<close> (the opening
  parenthesis of a statement with set operations, the \<^verbatim>\<open>WITH\<close> clause, \<^verbatim>\<open>SELECT\<close> and
  \<^verbatim>\<open>DISTINCT\<close>), \<open>bodyText\<close> (from \<^verbatim>\<open>FROM\<close> to \<^verbatim>\<open>HAVING\<close>) and \<open>tailText\<close> (\<^verbatim>\<open>ORDER BY\<close>,
  \<^verbatim>\<open>LIMIT\<close>, \<^verbatim>\<open>OFFSET\<close> and the locking clause). \<open>setOpsText\<close> closes the parenthesis and
  adds each set operation with the rendering of its member query in parentheses.
  \<open>selectText\<close> and \<open>queryText\<close> assemble what the two parts of \<^verbatim>\<open>appendQuery\<close> render,
  for the plain and for the counting render.
\<close>

definition headText :: "'f env \<Rightarrow> 'f \<Rightarrow> SelectQuery \<Rightarrow> error + string" where
  "headText env fmter q =
     seqE [Inr (if union_q q = [] then [] else ''(''), withText env fmter q, Inr ''SELECT '',
           distinctText env fmter q]"

definition bodyText :: "'f env \<Rightarrow> 'f \<Rightarrow> SelectQuery \<Rightarrow> error + string" where
  "bodyText env fmter q =
     seqE [fromText env fmter q, hasOneJoinsText env fmter q, joinsText env fmter q,
           whereText env fmter q, groupText env fmter q, havingText env fmter q]"

definition tailText :: "'f env \<Rightarrow> 'f \<Rightarrow> SelectQuery \<Rightarrow> error + string" where
  "tailText env fmter q =
     seqE [orderText env fmter q, Inr (limitText q), Inr (offsetText q), forText env fmter q]"

definition selectText :: "'f env \<Rightarrow> 'f \<Rightarrow> SelectQuery \<Rightarrow> bool \<Rightarrow> error + string" where
  "selectText env fmter q count =
     seqE [Inr (if cteCount q count then ''WITH _count_wrapper AS ('' else []),
           headText env fmter q,
           (if count \<and> \<not> cteCount q count then Inr ''count(*)''
            else columnListText env fmter q),
           bodyText env fmter q,
           (if count then Inr [] else tailText env fmter q)]"

definition unionText :: "'f env \<Rightarrow> 'f \<Rightarrow> (string \<times> SelectQuery) list \<Rightarrow> error + string" where
  "unionText env fmter us =
     seqE (map (\<lambda>(expr, u). seqE [Inr expr, Inr ''('', AppendQuery env fmter u [], Inr '')'']) us)"

definition setOpsText :: "'f env \<Rightarrow> 'f \<Rightarrow> SelectQuery \<Rightarrow> error + string" where
  "setOpsText env fmter q =
     (if union_q q = [] then Inr [] else seqE [Inr '')'', unionText env fmter (union_q q)])"

definition queryText :: "'f env \<Rightarrow> 'f \<Rightarrow> SelectQuery \<Rightarrow> bool \<Rightarrow> error + string" where
  "queryText env fmter q count =
     (case err (core q) of
        Some e \<Rightarrow> Inl e
      | None \<Rightarrow>
          seqE [selectText env fmter q count, setOpsText env fmter q,
                Inr (if cteCount q count then '') SELECT count(*) FROM _count_wrapper'' else [])])"

subsection \<open>Auxiliary definitions of the proofs\<close>

text \<open>
  \<open>endsOk b\<close>: the buffer ends with a space that does not follow a comma, as it does
  where \<^verbatim>\<open>appendColumns\<close> is called; trimming \<^verbatim>\<open>", "\<close> then leaves it alone.
  \<open>sepPrefix\<close> is \<open>joinPieces\<close> without the last piece, \<open>columnsCallback\<close> the callback of
  \<^verbatim>\<open>appendColumns\<close>, \<open>prefixText\<close> what \<^verbatim>\<open>appendQuery\<close> writes before the \<^verbatim>\<open>WITH\<close> clause
  and \<open>afterColumns\<close> its steps after the column list.
\<close>

definition endsOk :: "string \<Rightarrow> bool" where
  "endsOk b \<longleftrightarrow> 2 \<le> length b \<and> last b = CHR '' '' \<and> last (butlast b) \<noteq> CHR '',''"

definition sepPrefix :: "string list \<Rightarrow> string" where
  "sepPrefix ps = concat (map (\<lambda>p. if p = [] then [] else p @ '', '') (butlast ps))"

definition columnsCallback ::
  "'f env \<Rightarrow> 'f \<Rightarrow> SelectQuery \<Rightarrow> join \<Rightarrow> string \<times> nat \<Rightarrow> error + string \<times> nat" where
  "columnsCallback env fmter q =
     (\<lambda>j (b, start).
        let (b, start) =
              (if length b \<noteq> start then (b @ '', '', length (b @ '', '')) else (b, start))
        in bindE (appendHasOneColumns env fmter q b j) (\<lambda>b. Inr (b, start)))"

definition prefixText :: "SelectQuery \<Rightarrow> bool \<Rightarrow> string" where
  "prefixText q count =
     (if cteCount q count then ''WITH _count_wrapper AS ('' else []) @
     (if union_q q = [] then [] else ''('')"

definition afterColumns :: "'f env \<Rightarrow> 'f \<Rightarrow> SelectQuery \<Rightarrow> bool \<Rightarrow> string \<Rightarrow> error + string" where
  "afterColumns env fmter q count b =
     bindE (app (fromText env fmter q) b) (\<lambda>b.
     bindE (app (hasOneJoinsText env fmter q) b) (\<lambda>b.
     bindE (app (joinsText env fmter q) b) (\<lambda>b.
     bindE (app (whereText env fmter q) b) (\<lambda>b.
     bindE (app (groupText env fmter q) b) (\<lambda>b.
     bindE (app (havingText env fmter q) b) (\<lambda>b.
     if \<not> count then
       bindE (app (orderText env fmter q) b) (\<lambda>b.
       app (forText env fmter q) ((b @ limitText q) @ offsetText q))
     else Inr b))))))"

section \<open>Definitions that follow the specification\<close>

text \<open>
  The definitions of this section are not translations of code: they state, in the words
  of the specification, what the code is compared with.
\<close>

subsection \<open>Ordering fragments\<close>

text \<open>
  What one argument of \<^verbatim>\<open>Order\<close> contributes: nothing when it is empty; the whole
  string as an unsafe identifier when it has no space; the safe fragment \<^verbatim>\<open>? ?\<close> of
  the field before the first space and the direction after it when the direction, in
  upper case, is one of the six sort directions; the whole string as an unsafe
  identifier otherwise.
\<close>

definition orderFragment :: "(string \<Rightarrow> string) \<Rightarrow> string \<Rightarrow> QueryWithArgs list" where
  "orderFragment up s =
     (if s = [] then []
      else if CHR '' '' \<notin> set s then [UnsafeIdent s]
      else
        let field = takeWhile (\<lambda>c. c \<noteq> CHR '' '') s;
            sort = tl (dropWhile (\<lambda>c. c \<noteq> CHR '' '') s)
        in if up sort \<in> set sortDirections
           then [SafeQuery ''? ?'' [Ident field, Safe sort]]
           else [UnsafeIdent s])"

subsection \<open>The column list\<close>

text \<open>
  One explicit column is the field qualified by the alias of the table when it is the name
  of a field of the bound table, and its fragment otherwise.
\<close>

definition specColumn :: "'f env \<Rightarrow> 'f \<Rightarrow> Table option \<Rightarrow> QueryWithArgs \<Rightarrow> error + string" where
  "specColumn env fmter tbl col =
     (case tbl of
        None \<Rightarrow> AppendArgs env fmter col
      | Some t \<Rightarrow>
          (case (if Args col = None then FieldMap t (Query col) else None) of
             Some field \<Rightarrow> Inr (SQLAlias t @ ''.'' @ SQLName field)
           | None \<Rightarrow> AppendArgs env fmter col))"

text \<open>
  The columns of the query itself: the explicit columns if they are set; otherwise all
  fields of the table metadata (for a no-op formatter and a table of more than ten fields,
  the placeholder \<^verbatim>\<open><alias>.<quoted "N columns">\<close> in their place); otherwise \<^verbatim>\<open>*\<close>.
\<close>

definition specBase :: "'f env \<Rightarrow> 'f \<Rightarrow> SelectQuery \<Rightarrow> error + string" where
  "specBase env fmter q =
     (case columns (core q) of
        Some cols \<Rightarrow> sepE '', '' (map (specColumn env fmter (table (core q))) cols)
      | None \<Rightarrow>
          (case table (core q) of
             Some t \<Rightarrow>
               if length (Fields t) > 10 \<and> IsNop env fmter
               then Inr (SQLAlias t @ ''.'' @
                         AppendString env (decimal (length (Fields t)) @ '' columns''))
               else Inr (appendFields env (SQLAlias t) (Fields t))
           | None \<Rightarrow> Inr ''*''))"

text \<open>
  The block of an eager to-one relation: every field of the joined table, qualified by the
  alias of the join and aliased with the relation-prefixed column name.
\<close>

definition specBlock :: "'f env \<Rightarrow> 'f \<Rightarrow> SelectQuery \<Rightarrow> join \<Rightarrow> string" where
  "specBlock env fmter q j0 =
     (let j = applyQuery env j0 q
      in joinStrings '', '' (map (aliasedField env fmter j) (JoinModel_Fields j)))"

text \<open>
  The column list: the columns of the query, followed by one block per eager to-one
  relation, in the order of \<open>hasOneJoins\<close>, separated by \<^verbatim>\<open>", "\<close>.
\<close>

definition specColumnList :: "'f env \<Rightarrow> 'f \<Rightarrow> SelectQuery \<Rightarrow> error + string" where
  "specColumnList env fmter q =
     bindE (specBase env fmter q)
       (\<lambda>base. Inr (TrimSuffix
          (joinPieces (base # map (specBlock env fmter q) (modelHasOneJoins q))) '', ''))"

subsection \<open>The order of the events and the follow-up queries\<close>

text \<open>
  The order of an operation: the capacity of the destination, the before-select hook, the
  render, the SQL handed to the driver, the follow-up queries of the relations, the
  after-select hook.
\<close>

fun phase :: "event \<Rightarrow> nat" where
  "phase (SetCap n) = 0"
| "phase BeforeSelectHook = 1"
| "phase Render = 2"
| "phase (Query_sql s) = 3"
| "phase (JoinSelect j) = 4"
| "phase AfterSelectHook = 5"

text \<open>
  The relations for which a follow-up query is issued: the joins that are not to-one, in
  declaration order; a to-one relation has no follow-up query of its own, the follow-up
  queries of its nested joins stand in its place.
\<close>

fun followUps :: "join list \<Rightarrow> join list" where
  "followUps [] = []"
| "followUps (Join ty nm cols flds sub # js) =
     (if ty = HasOneRelation \<or> ty = BelongsToRelation then followUps sub
      else [Join ty nm cols flds sub]) @ followUps js"

section \<open>Concrete instances\<close>

text \<open>
  A small environment and some queries, for the instances of the theorems. The
  formatter of \<open>env0\<close> is a truth value, \<open>True\<close> for the no-op formatter; a fragment is its
  template with the arguments in place of the question marks; an eager to-one relation
  is joined under its name.
\<close>

fun argText :: "arg \<Rightarrow> string" where
  "argText (Ident s) = [CHR 0x22] @ s @ [CHR 0x22]"
| "argText (Safe s) = s"
| "argText (Other s) = s"

fun substArgs :: "string \<Rightarrow> arg list \<Rightarrow> string" where
  "substArgs [] as = []"
| "substArgs (c # cs) as =
     (if c = CHR ''?'' then
        (case as of [] \<Rightarrow> c # substArgs cs [] | a # as' \<Rightarrow> argText a @ substArgs cs as')
      else c # substArgs cs as)"

definition env0 :: "bool env" where
  "env0 =
     \<lparr>formatterWithModel = (\<lambda>f q. f),
      IsNop = (\<lambda>f. f),
      AppendArgs = (\<lambda>f a. Inr (case Args a of None \<Rightarrow> Query a | Some as \<Rightarrow> substArgs (Query a) as)),
      AppendString = (\<lambda>s. [CHR 0x27] @ s @ [CHR 0x27]),
      appendFields = (\<lambda>alias fs. joinStrings '', '' (map (\<lambda>f. alias @ ''.'' @ SQLName f) fs)),
      appendWith = (\<lambda>f bq. Inr []),
      hasTables = (\<lambda>bq. table bq \<noteq> None \<or> tables bq \<noteq> []),
      appendTablesWithAlias =
        (\<lambda>f bq. Inr (joinStrings '', ''
           ((case table bq of None \<Rightarrow> [] | Some t \<Rightarrow> [SQLAlias t]) @ map Query (tables bq)))),
      appendWhere =
        (\<lambda>f wq withAlias.
           Inr (case where_q wq of
                  [] \<Rightarrow> []
                | w # ws \<Rightarrow> '' WHERE ('' @ Query w @ '')'' @
                            concat (map (\<lambda>w. Sep w @ ''('' @ Query w @ '')'') ws))),
      appendHasOneJoin = (\<lambda>f j q. Inr (''LEFT JOIN '' @ Relation_Name j)),
      applyQuery = (\<lambda>j q. j),
      appendAlias = (\<lambda>f j. Relation_Name j),
      appendAliasColumn = (\<lambda>f j name. Relation_Name j @ ''__'' @ name)\<rparr>"

definition mkField :: "string \<Rightarrow> Field" where
  "mkField n = \<lparr>Name = n, SQLName = n\<rparr>"

definition mkTable :: "string \<Rightarrow> string list \<Rightarrow> Table" where
  "mkTable alias ns =
     \<lparr>SQLAlias = alias, Fields = map mkField ns, FieldMap = map_of (map (\<lambda>n. (n, mkField n)) ns)\<rparr>"

definition wideTable :: Table where
  "wideTable = mkTable ''t''
     [''c1'', ''c2'', ''c3'', ''c4'', ''c5'', ''c6'', ''c7'', ''c8'', ''c9'', ''c10'', ''c11'']"

definition wideQuery :: SelectQuery where
  "wideQuery = upd (\<lambda>f. f\<lparr>table := Some wideTable, tableModel := Some \<lparr>GetJoins = []\<rparr>\<rparr>) NewSelectQuery"

definition profileJoin :: join where
  "profileJoin = Join HasOneRelation ''profile'' None [mkField ''bio'']
     [Join BelongsToRelation ''profile__city'' None [mkField ''zip''] [],
      Join HasManyRelation ''tags'' None [mkField ''tag''] []]"

definition postsJoin :: join where
  "postsJoin = Join HasManyRelation ''posts'' None [mkField ''title''] []"

definition userTable :: Table where
  "userTable = mkTable ''u'' [''id'', ''name'']"

definition userQuery :: SelectQuery where
  "userQuery =
     upd (\<lambda>f. f\<lparr>table := Some userTable,
                 tableModel := Some \<lparr>GetJoins = [postsJoin, profileJoin]\<rparr>\<rparr>) NewSelectQuery"

definition sampleQuery :: SelectQuery where
  "sampleQuery =
     Union_q (TableExpr ''archive'' [] NewSelectQuery)
       (Limit 10 (Offset 20 (Order asciiUpper [''name desc'']
         (Group [''id''] (Where ''age > 18'' []
           (JoinOn ''o.id = u.org_id'' [] (Join_q ''JOIN orgs AS o'' [] userQuery)))))))"

definition adultsQuery :: SelectQuery where
  "adultsQuery = Limit 5 (Order asciiUpper [''name''] (Where ''age > 18'' [] userQuery))"

text \<open>
  A database side for the instances: every driver call succeeds, the scan returns two rows, a table has both hooks and they change nothing. \<open>getModel\<close> takes the table model of the query, and fails for a query with no model and no destination, as the test \<^verbatim>\<open>testNilModel\<close> expects.
\<close>

definition db0 :: "(bool, unit, unit) db" where
  "db0 =
     \<lparr>db_fmter = False,
      makeQueryBytes = [],
      getModel =
        (\<lambda>q dest. case tableModel (core q) of
                     None \<Rightarrow> if dest = [] then Inl errNilModel
                             else Inr \<lparr>has_SetCap = False, as_tableModel = None\<rparr>
                   | Some tm \<Rightarrow> Inr \<lparr>has_SetCap = True, as_tableModel = Some tm\<rparr>),
      QueryContext = (\<lambda>s. Inr ()),
      exec = (\<lambda>s. Inr ()),
      scan = (\<lambda>s m. Inr 2),
      QueryRow = (\<lambda>s. (2, None)),
      join_Select = (\<lambda>j. None),
      BeforeSelect = (\<lambda>t. Some (\<lambda>q. (None, q))),
      AfterSelect = (\<lambda>t. Some (\<lambda>q. (None, q)))\<rparr>"

definition noJoinQuery :: SelectQuery where
  "noJoinQuery = JoinOn ''o.id = u.org_id'' [] userQuery"

text \<open>
  A builder with a recorded error: \<^verbatim>\<open>JoinOn\<close> on a new query.
\<close>

definition failedQuery :: SelectQuery where
  "failedQuery = JoinOn ''a = b'' [] NewSelectQuery"

text \<open>
  A relation resolver for the instances: the model has the relation \<^verbatim>\<open>Profile\<close> and no other; a table prints as \<^verbatim>\<open>model=\<close> and its alias; a name with no special character is quoted as it is.
\<close>

definition renv0 :: relEnv where
  "renv0 =
     \<lparr>tableModel_Join =
        (\<lambda>tm name fn. if name = ''Profile''
                       then Some (tm\<lparr>GetJoins := GetJoins tm @ [profileJoin]\<rparr>) else None),
      Sprint_table = (\<lambda>t. case t of None \<Rightarrow> ''<nil>'' | Some t \<Rightarrow> ''model='' @ SQLAlias t),
      Quote = (\<lambda>s. [CHR 0x22] @ s @ [CHR 0x22])\<rparr>"

text \<open>
  A query whose relation \<^verbatim>\<open>profile\<close> has a column list of its own, \<^verbatim>\<open>bio\<close> and \<^verbatim>\<open>id\<close>.
\<close>

definition bioJoin :: join where
  "bioJoin = Join HasOneRelation ''profile'' (Some [UnsafeIdent ''bio'', UnsafeIdent ''id''])
     [mkField ''id'', mkField ''bio''] []"

definition bioQuery :: SelectQuery where
  "bioQuery =
     upd (\<lambda>f. f\<lparr>table := Some userTable, tableModel := Some \<lparr>GetJoins = [bioJoin]\<rparr>\<rparr>) NewSelectQuery"








section \<open>Properties\<close>

subsection \<open>Updates of the builder\<close>

lemma upd_upd: "upd f (upd g q) = upd (\<lambda>x. f (g x)) q"
  by (simp add: upd_def)

lemma core_upd: "core (upd f q) = f (core q)"
  by (simp add: upd_def)

lemma union_upd: "union_q (upd f q) = union_q q"
  by (simp add: upd_def)

subsection \<open>\<^verbatim>\<open>Order\<close>\<close>

lemma IndexByte_nonneg: "IndexByte s c = - 1 \<or> 0 \<le> IndexByte s c"
  by (induction s) (auto simp: Let_def)

lemma IndexByte_absent: "IndexByte s c = - 1 \<longleftrightarrow> c \<notin> set s"
proof (induction s)
  case Nil
  show ?case by simp
next
  case (Cons x xs)
  have "IndexByte xs c + 1 \<noteq> - 1"
    using IndexByte_nonneg [of xs c] by auto
  with Cons show ?case by (auto simp: Let_def)
qed

lemma IndexByte_present:
  "c \<in> set s \<Longrightarrow> IndexByte s c = int (length (takeWhile (\<lambda>x. x \<noteq> c) s))"
proof (induction s)
  case Nil
  then show ?case by simp
next
  case (Cons x xs)
  show ?case
  proof (cases "x = c")
    case True
    then show ?thesis by simp
  next
    case False
    with Cons.prems have "c \<in> set xs" by simp
    with Cons.IH False show ?thesis
      by (simp add: Let_def)
  qed
qed

lemma drop_Suc_takeWhile: "drop (Suc (length (takeWhile P s))) s = tl (dropWhile P s)"
  by (induction s) auto

lemma take_length_takeWhile: "take (length (takeWhile P s)) s = takeWhile P s"
  by (induction s) auto

lemma orderStep_fragment:
  "orderStep up q s = upd (\<lambda>f. f\<lparr>order := order f @ orderFragment up s\<rparr>) q"
proof (cases "s = []")
  case True
  then show ?thesis by (cases q) (simp add: orderStep_def orderFragment_def upd_def)
next
  case False
  show ?thesis
  proof (cases "CHR '' '' \<in> set s")
    case True
    then have ix: "IndexByte s CHR '' '' = int (length (takeWhile (\<lambda>x. x \<noteq> CHR '' '') s))"
      by (rule IndexByte_present)
    have "nat (int (length (takeWhile (\<lambda>x. x \<noteq> CHR '' '') s)) + 1)
            = Suc (length (takeWhile (\<lambda>x. x \<noteq> CHR '' '') s))"
      by simp
    with ix False True show ?thesis
      by (simp add: orderStep_def orderFragment_def Let_def drop_Suc_takeWhile
            take_length_takeWhile)
  next
    case False
    then have "IndexByte s CHR '' '' = - 1"
      by (simp add: IndexByte_absent)
    with False \<open>s \<noteq> []\<close> show ?thesis
      by (simp add: orderStep_def orderFragment_def)
  qed
qed

text \<open>
  Claim C9. \<^verbatim>\<open>Order(orders...)\<close> changes nothing but the \<^verbatim>\<open>order\<close> list of the builder,
  and appends to it, argument by argument: nothing for an empty string; one unsafe
  identifier for a string with no space; the safe fragment \<^verbatim>\<open>? ?\<close> with the field
  before the first space (as an identifier) and the suffix after it (verbatim) when that
  suffix is, in upper case, one of \<^verbatim>\<open>ASC\<close>, \<^verbatim>\<open>DESC\<close>, \<^verbatim>\<open>ASC NULLS FIRST\<close>,
  \<^verbatim>\<open>DESC NULLS FIRST\<close>, \<^verbatim>\<open>ASC NULLS LAST\<close>, \<^verbatim>\<open>DESC NULLS LAST\<close>; and the whole string as
  one unsafe identifier for any other suffix.
\<close>

theorem Order_fragments:
  "Order up orders q =
     upd (\<lambda>f. f\<lparr>order := order f @ concat (map (orderFragment up) orders)\<rparr>) q"
  unfolding Order_def
proof (induction orders arbitrary: q)
  case Nil
  show ?case by (cases q) (simp add: upd_def)
next
  case (Cons s ss)
  have "foldl (orderStep up) q (s # ss) =
          upd (\<lambda>f. f\<lparr>order := order f @ concat (map (orderFragment up) ss)\<rparr>) (orderStep up q s)"
    using Cons.IH [of "orderStep up q s"] by simp
  also have "\<dots> = upd (\<lambda>f. f\<lparr>order := order f @ concat (map (orderFragment up) ss)\<rparr>)
                    (upd (\<lambda>f. f\<lparr>order := order f @ orderFragment up s\<rparr>) q)"
    by (simp only: orderStep_fragment)
  also have "\<dots> = upd (\<lambda>f. f\<lparr>order := order f @ concat (map (orderFragment up) (s # ss))\<rparr>) q"
    by (simp add: upd_upd)
  finally show ?case .
qed

subsection \<open>The renderer computes the sequence of clauses\<close>

lemma bindE_Inl [simp]: "bindE (Inl e) f = Inl e"
  by (simp add: bindE_def)

lemma bindE_Inr [simp]: "bindE (Inr x) f = f x"
  by (simp add: bindE_def)

lemma bindE_assoc: "bindE (bindE m f) g = bindE m (\<lambda>x. bindE (f x) g)"
  by (cases m) simp_all

lemma bindE_Inr_right [simp]: "bindE m Inr = m"
  by (cases m) simp_all

lemma app_Inl [simp]: "app (Inl e) b = Inl e"
  by (simp add: app_def)

lemma app_Inr [simp]: "app (Inr s) b = Inr (b @ s)"
  by (simp add: app_def)

lemma app_Nil [simp]: "app m [] = m"
  by (cases m) simp_all

lemma bindE_app: "bindE (app m b) f = bindE m (\<lambda>s. f (b @ s))"
  by (cases m) simp_all

lemma app_bindE: "app (bindE m f) b = bindE m (\<lambda>x. app (f x) b)"
  by (cases m) simp_all

lemma seqE_Cons_app: "app (seqE (m # ms)) b = bindE (app m b) (\<lambda>b. app (seqE ms) b)"
  by (cases m; cases "seqE ms") simp_all

lemma seqE_append: "seqE (ms @ ns) = seqE [seqE ms, seqE ns]"
proof (induction ms)
  case Nil
  show ?case by (cases "seqE ns") simp_all
next
  case (Cons m ms)
  show ?case
    by (cases m; cases "seqE ms"; cases "seqE ns") (simp_all add: Cons.IH)
qed

lemma foldE_append: "foldE fn (xs @ ys) s = bindE (foldE fn xs s) (\<lambda>s. foldE fn ys s)"
proof (induction xs arbitrary: s)
  case Nil
  show ?case by simp
next
  case (Cons x xs)
  show ?case by (cases "fn x s") (simp_all add: Cons.IH)
qed

lemma forEachHasOneJoin_rec_foldE:
  "forEachHasOneJoin_rec fn js s = foldE fn (hasOneJoins js) s"
proof (induction fn js s rule: forEachHasOneJoin_rec.induct)
  case (1 fn s)
  show ?case by simp
next
  case (2 fn ty nm cols flds sub js s)
  show ?case
  proof (cases "ty = HasOneRelation \<or> ty = BelongsToRelation")
    case True
    show ?thesis
    proof (cases "fn (Join ty nm cols flds sub) s")
      case (Inl e)
      with True show ?thesis by simp
    next
      case (Inr s1)
      have sub: "forEachHasOneJoin_rec fn sub s1 = foldE fn (hasOneJoins sub) s1"
        by (rule "2.IH"(1) [OF True])
      show ?thesis
      proof (cases "foldE fn (hasOneJoins sub) s1")
        case (Inl e)
        with True Inr sub show ?thesis
          by (simp add: foldE_append)
      next
        case (Inr s2)
        have "forEachHasOneJoin_rec fn js s2 = foldE fn (hasOneJoins js) s2"
          by (rule "2.IH"(2) [OF True])
        with True \<open>fn (Join ty nm cols flds sub) s = Inr s1\<close> Inr sub show ?thesis
          by (simp add: foldE_append)
      qed
    qed
  next
    case False
    with "2.IH"(3) show ?thesis by simp
  qed
qed

lemma forEachHasOneJoin_foldE:
  "forEachHasOneJoin fn q s = foldE fn (modelHasOneJoins q) s"
  by (simp add: forEachHasOneJoin_def modelHasOneJoins_def forEachHasOneJoin_rec_foldE
        split: option.split)

lemma seqE_two: "seqE [Inr s, m] = bindE m (\<lambda>t. Inr (s @ t))"
  by (cases m) simp_all

lemma app_seqE_pre: "app (seqE [Inr s, m]) b = app m (b @ s)"
  by (cases m) simp_all

lemma app_seqE_wrap: "app (seqE [Inr s, m, Inr t]) b = bindE (app m (b @ s)) (\<lambda>b. Inr (b @ t))"
  by (cases m) simp_all

lemma appendList_pos:
  "0 < i \<Longrightarrow> appendList env fmter fs i b =
     app (seqE (map (\<lambda>f. seqE [Inr '', '', AppendArgs env fmter f]) fs)) b"
proof (induction fs arbitrary: i b)
  case Nil
  show ?case by simp
next
  case (Cons f fs)
  let ?rest = "seqE (map (\<lambda>f. seqE [Inr '', '', AppendArgs env fmter f]) fs)"
  have IH: "appendList env fmter fs (Suc i) b' = app ?rest b'" for b'
    by (rule Cons.IH) simp
  from Cons.prems show ?case
    by (cases "AppendArgs env fmter f"; cases ?rest) (simp_all add: IH appendArgs_def)
qed

lemma appendList_zero:
  "appendList env fmter fs 0 b = app (sepE '', '' (map (AppendArgs env fmter) fs)) b"
proof (cases fs)
  case Nil
  then show ?thesis by (simp add: sepE_def)
next
  case (Cons f gs)
  let ?rest = "seqE (map (\<lambda>f. seqE [Inr '', '', AppendArgs env fmter f]) gs)"
  have IH: "appendList env fmter gs (Suc 0) b' = app ?rest b'" for b'
    by (rule appendList_pos) simp
  from Cons show ?thesis
    by (cases "AppendArgs env fmter f"; cases ?rest)
       (simp_all add: IH sepE_def appendArgs_def comp_def)
qed

lemma appendHaving_pos:
  "0 < i \<Longrightarrow> appendHaving env fmter fs i b =
     app (seqE (map (\<lambda>f. seqE [Inr '' AND '', parenText env fmter f]) fs)) b"
proof (induction fs arbitrary: i b)
  case Nil
  show ?case by simp
next
  case (Cons f fs)
  let ?rest = "seqE (map (\<lambda>f. seqE [Inr '' AND '', parenText env fmter f]) fs)"
  have IH: "appendHaving env fmter fs (Suc i) b' = app ?rest b'" for b'
    by (rule Cons.IH) simp
  from Cons.prems show ?case
    by (cases "AppendArgs env fmter f"; cases ?rest)
       (simp_all add: IH appendArgs_def parenText_def)
qed

lemma appendHaving_zero:
  "appendHaving env fmter fs 0 b = app (sepE '' AND '' (map (parenText env fmter) fs)) b"
proof (cases fs)
  case Nil
  then show ?thesis by (simp add: sepE_def)
next
  case (Cons f gs)
  let ?rest = "seqE (map (\<lambda>f. seqE [Inr '' AND '', parenText env fmter f]) gs)"
  have IH: "appendHaving env fmter gs (Suc 0) b' = app ?rest b'" for b'
    by (rule appendHaving_pos) simp
  from Cons show ?thesis
    by (cases "AppendArgs env fmter f"; cases ?rest)
       (simp_all add: IH sepE_def appendArgs_def parenText_def comp_def)
qed

lemma appendOn_pos:
  "0 < i \<Longrightarrow> appendOn env fmter cs i b =
     app (seqE (map (\<lambda>d. seqE [Inr (Sep d), parenText env fmter (QueryWithArgs.truncate d)]) cs)) b"
proof (induction cs arbitrary: i b)
  case Nil
  show ?case by simp
next
  case (Cons c cs)
  let ?rest = "seqE (map (\<lambda>d. seqE [Inr (Sep d), parenText env fmter (QueryWithArgs.truncate d)]) cs)"
  have IH: "appendOn env fmter cs (Suc i) b' = app ?rest b'" for b'
    by (rule Cons.IH) simp
  from Cons.prems show ?case
    by (cases "AppendArgs env fmter (QueryWithArgs.truncate c)"; cases ?rest)
       (simp_all add: IH appendArgs_def parenText_def)
qed

lemma appendOn_zero:
  "appendOn env fmter cs 0 b = app (onText env fmter cs) b"
proof (cases cs)
  case Nil
  then show ?thesis by (simp add: onText_def)
next
  case (Cons c ds)
  let ?rest = "seqE (map (\<lambda>d. seqE [Inr (Sep d), parenText env fmter (QueryWithArgs.truncate d)]) ds)"
  have IH: "appendOn env fmter ds (Suc 0) b' = app ?rest b'" for b'
    by (rule appendOn_pos) simp
  from Cons show ?thesis
    by (cases "AppendArgs env fmter (QueryWithArgs.truncate c)"; cases ?rest)
       (simp_all add: IH onText_def appendArgs_def parenText_def)
qed

lemma joinQuery_AppendQuery_text:
  "joinQuery_AppendQuery env fmter j b = app (joinText env fmter j) b"
  by (cases "AppendArgs env fmter (join j)"; cases "onText env fmter (on j)")
     (simp_all add: joinQuery_AppendQuery_def joinText_def appendArgs_def appendOn_zero)

lemma appendJoins_text:
  "appendJoins env fmter js b = app (seqE (map (joinText env fmter) js)) b"
proof (induction js arbitrary: b)
  case Nil
  show ?case by simp
next
  case (Cons j js)
  show ?case
    by (cases "joinText env fmter j"; cases "seqE (map (joinText env fmter) js)")
       (simp_all add: Cons.IH joinQuery_AppendQuery_text)
qed

lemma appendColumnList_step:
  "appendColumnList env fmter tbl (c # cols) i b =
     bindE (app (columnText env fmter tbl c) (if i > 0 then b @ '', '' else b))
       (\<lambda>b. appendColumnList env fmter tbl cols (Suc i) b)"
  by (simp add: columnText_def Let_def appendArgs_def split: option.split)

lemma appendColumnList_pos:
  "0 < i \<Longrightarrow> appendColumnList env fmter tbl cols i b =
     app (seqE (map (\<lambda>c. seqE [Inr '', '', columnText env fmter tbl c]) cols)) b"
proof (induction cols arbitrary: i b)
  case Nil
  show ?case by simp
next
  case (Cons c cols)
  let ?rest = "seqE (map (\<lambda>c. seqE [Inr '', '', columnText env fmter tbl c]) cols)"
  have IH: "appendColumnList env fmter tbl cols (Suc i) b' = app ?rest b'" for b'
    by (rule Cons.IH) simp
  from Cons.prems show ?case
    by (cases "columnText env fmter tbl c"; cases ?rest)
       (simp_all add: IH appendColumnList_step del: appendColumnList.simps)
qed

lemma appendColumnList_zero:
  "appendColumnList env fmter tbl cols 0 b =
     app (sepE '', '' (map (columnText env fmter tbl) cols)) b"
proof (cases cols)
  case Nil
  then show ?thesis by (simp add: sepE_def)
next
  case (Cons c ds)
  let ?rest = "seqE (map (\<lambda>c. seqE [Inr '', '', columnText env fmter tbl c]) ds)"
  have IH: "appendColumnList env fmter tbl ds (Suc 0) b' = app ?rest b'" for b'
    by (rule appendColumnList_pos) simp
  from Cons show ?thesis
    by (cases "columnText env fmter tbl c"; cases ?rest)
       (simp_all add: IH sepE_def appendColumnList_step comp_def del: appendColumnList.simps)
qed

lemma appendJoinColumnList_step:
  "appendJoinColumnList env fmter tbl j (c # cols) i b =
     bindE (app (joinColumnText env fmter tbl j c) (if i > 0 then b @ '', '' else b))
       (\<lambda>b. appendJoinColumnList env fmter tbl j cols (Suc i) b)"
  by (simp add: joinColumnText_def aliasedField_def Let_def appendArgs_def split: option.split)

lemma appendJoinColumnList_pos:
  "0 < i \<Longrightarrow> appendJoinColumnList env fmter tbl j cols i b =
     app (seqE (map (\<lambda>c. seqE [Inr '', '', joinColumnText env fmter tbl j c]) cols)) b"
proof (induction cols arbitrary: i b)
  case Nil
  show ?case by simp
next
  case (Cons c cols)
  let ?rest = "seqE (map (\<lambda>c. seqE [Inr '', '', joinColumnText env fmter tbl j c]) cols)"
  have IH: "appendJoinColumnList env fmter tbl j cols (Suc i) b' = app ?rest b'" for b'
    by (rule Cons.IH) simp
  from Cons.prems show ?case
    by (cases "joinColumnText env fmter tbl j c"; cases ?rest)
       (simp_all add: IH appendJoinColumnList_step del: appendJoinColumnList.simps)
qed

lemma appendJoinColumnList_zero:
  "appendJoinColumnList env fmter tbl j cols 0 b =
     app (sepE '', '' (map (joinColumnText env fmter tbl j) cols)) b"
proof (cases cols)
  case Nil
  then show ?thesis by (simp add: sepE_def)
next
  case (Cons c ds)
  let ?rest = "seqE (map (\<lambda>c. seqE [Inr '', '', joinColumnText env fmter tbl j c]) ds)"
  have IH: "appendJoinColumnList env fmter tbl j ds (Suc 0) b' = app ?rest b'" for b'
    by (rule appendJoinColumnList_pos) simp
  from Cons show ?thesis
    by (cases "joinColumnText env fmter tbl j c"; cases ?rest)
       (simp_all add: IH sepE_def appendJoinColumnList_step comp_def
          del: appendJoinColumnList.simps)
qed

lemma appendJoinFields_pos:
  "0 < i \<Longrightarrow> appendJoinFields env fmter j fs i b =
     b @ concat (map (\<lambda>f. '', '' @ aliasedField env fmter j f) fs)"
proof (induction fs arbitrary: i b)
  case Nil
  show ?case by simp
next
  case (Cons f fs)
  have "appendJoinFields env fmter j fs (i + 1) b' =
          b' @ concat (map (\<lambda>f. '', '' @ aliasedField env fmter j f) fs)" for b'
    by (rule Cons.IH) simp
  with Cons.prems show ?case
    by (simp add: aliasedField_def)
qed

lemma appendJoinFields_zero:
  "appendJoinFields env fmter j fs 0 b =
     b @ joinStrings '', '' (map (aliasedField env fmter j) fs)"
proof (cases fs)
  case Nil
  then show ?thesis by (simp add: joinStrings_def)
next
  case (Cons f gs)
  have "appendJoinFields env fmter j gs (0 + 1) b' =
          b' @ concat (map (\<lambda>f. '', '' @ aliasedField env fmter j f) gs)" for b'
    by (rule appendJoinFields_pos) simp
  with Cons show ?thesis
    by (simp add: joinStrings_def aliasedField_def comp_def)
qed

lemma appendHasOneColumns_text:
  "appendHasOneColumns env fmter q b j = app (columnBlock env fmter q j) b"
  by (simp add: appendHasOneColumns_def columnBlock_def Let_def appendJoinColumnList_zero
        appendJoinFields_zero split: option.split)

lemma TrimSuffix_endsOk:
  assumes "endsOk b"
  shows "TrimSuffix (b @ raw) '', '' = b @ TrimSuffix raw '', ''"
proof -
  from assms have len: "2 \<le> length b" and l1: "last b = CHR '' ''"
    and l2: "last (butlast b) \<noteq> CHR '',''"
    by (simp_all add: endsOk_def)
  from len have ne: "b \<noteq> []" and ne2: "butlast b \<noteq> []"
    by (auto simp: length_0_conv [symmetric] simp del: length_0_conv)
  define p where "p = butlast (butlast b)"
  define c where "c = last (butlast b)"
  have "b = butlast b @ [last b]"
    using ne by simp
  also have "butlast b = p @ [c]"
    using ne2 by (simp add: p_def c_def)
  finally have b: "b = p @ [c, CHR '' '']"
    using l1 by simp
  have c: "c \<noteq> CHR '',''"
    using l2 by (simp add: c_def)
  show ?thesis
  proof (cases raw rule: rev_cases)
    case Nil
    with b c show ?thesis by (simp add: TrimSuffix_def)
  next
    case (snoc r1 z)
    show ?thesis
    proof (cases r1 rule: rev_cases)
      case Nil
      with snoc b c show ?thesis by (simp add: TrimSuffix_def)
    next
      case (snoc r2 y)
      with \<open>raw = r1 @ [z]\<close> have raw: "raw = r2 @ [y, z]" by simp
      have "b @ raw = (b @ r2) @ [y, z]" by (simp add: raw)
      then have "TrimSuffix (b @ raw) '', '' =
                   (if [y, z] = '', '' then b @ r2 else b @ raw)"
        by (simp add: TrimSuffix_def)
      moreover have "TrimSuffix raw '', '' = (if [y, z] = '', '' then r2 else raw)"
        by (simp add: TrimSuffix_def raw)
      ultimately show ?thesis by simp
    qed
  qed
qed

lemma joinPieces_sepPrefix: "joinPieces ps = sepPrefix ps @ last ps"
  by (simp add: joinPieces_def sepPrefix_def)

lemma sepPrefix_single [simp]: "sepPrefix [c] = []"
  by (simp add: sepPrefix_def)

lemma sepPrefix_Cons2:
  "sepPrefix (c # x # ps) = (if c = [] then [] else c @ '', '') @ sepPrefix (x # ps)"
  by (simp add: sepPrefix_def)

lemma columnsCallback_fold:
  "foldE (columnsCallback env fmter q) js (S @ cur, length S) =
     bindE (allE (map (columnBlock env fmter q) js))
       (\<lambda>ps. Inr (S @ sepPrefix (cur # ps) @ last (cur # ps),
                   length (S @ sepPrefix (cur # ps))))"
proof (induction js arbitrary: S cur)
  case Nil
  show ?case by simp
next
  case (Cons j js)
  show ?case
  proof (cases "columnBlock env fmter q j")
    case (Inl e)
    then show ?thesis
      by (simp add: columnsCallback_def appendHasOneColumns_text)
  next
    case (Inr x)
    show ?thesis
    proof (cases "cur = []")
      case True
      have "foldE (columnsCallback env fmter q) (j # js) (S @ cur, length S) =
              foldE (columnsCallback env fmter q) js (S @ x, length S)"
        using True Inr by (simp add: columnsCallback_def appendHasOneColumns_text)
      also have "\<dots> = bindE (allE (map (columnBlock env fmter q) js))
                (\<lambda>ps. Inr (S @ sepPrefix (x # ps) @ last (x # ps),
                            length (S @ sepPrefix (x # ps))))"
        by (rule Cons.IH)
      finally show ?thesis
        using True Inr
        by (cases "allE (map (columnBlock env fmter q) js)") (simp_all add: sepPrefix_Cons2)
    next
      case False
      have "foldE (columnsCallback env fmter q) (j # js) (S @ cur, length S) =
              foldE (columnsCallback env fmter q) js
                ((S @ cur @ '', '') @ x, length (S @ cur @ '', ''))"
        using False Inr by (simp add: columnsCallback_def appendHasOneColumns_text)
      also have "\<dots> = bindE (allE (map (columnBlock env fmter q) js))
                (\<lambda>ps. Inr ((S @ cur @ '', '') @ sepPrefix (x # ps) @ last (x # ps),
                            length ((S @ cur @ '', '') @ sepPrefix (x # ps))))"
        by (rule Cons.IH)
      finally show ?thesis
        using False Inr
        by (cases "allE (map (columnBlock env fmter q) js)") (simp_all add: sepPrefix_Cons2)
    qed
  qed
qed

lemma appendColumns_base:
  "(case columns (core q) of
      Some cols \<Rightarrow> appendColumnList env fmter (table (core q)) cols 0 b
    | None \<Rightarrow>
        (case table (core q) of
           Some t \<Rightarrow>
             if length (Fields t) > 10 \<and> IsNop env fmter
             then Inr (b @ SQLAlias t @ ''.'' @
                       AppendString env (decimal (length (Fields t)) @ '' columns''))
             else Inr (b @ appendFields env (SQLAlias t) (Fields t))
         | None \<Rightarrow> Inr (b @ ''*''))) = app (columnBase env fmter q) b"
  by (simp add: columnBase_def appendColumnList_zero split: option.split)

lemma appendColumns_text:
  assumes "endsOk b"
  shows "appendColumns env fmter q b = app (columnListText env fmter q) b"
proof (cases "columnBase env fmter q")
  case (Inl e)
  then show ?thesis
    unfolding appendColumns_def Let_def appendColumns_base columnListText_def
    by simp
next
  case (Inr x)
  have fold: "foldE (columnsCallback env fmter q) (modelHasOneJoins q) (b @ x, length b) =
      bindE (allE (map (columnBlock env fmter q) (modelHasOneJoins q)))
       (\<lambda>ps. Inr (b @ sepPrefix (x # ps) @ last (x # ps), length (b @ sepPrefix (x # ps))))"
    by (rule columnsCallback_fold)
  have "appendColumns env fmter q b =
          bindE (foldE (columnsCallback env fmter q) (modelHasOneJoins q) (b @ x, length b))
            (\<lambda>(b, start). Inr (TrimSuffix b '', ''))"
    unfolding appendColumns_def Let_def appendColumns_base
    by (simp add: Inr forEachHasOneJoin_foldE columnsCallback_def Let_def)
  also have "\<dots> = app (columnListText env fmter q) b"
    unfolding fold columnListText_def
    by (cases "allE (map (columnBlock env fmter q) (modelHasOneJoins q))")
       (simp_all add: Inr joinPieces_sepPrefix TrimSuffix_endsOk [OF assms, symmetric])
  finally show ?thesis .
qed

lemma L_distinct:
  "(case distinctOn (core q) of
      None \<Rightarrow> Inr b
    | Some [] \<Rightarrow> Inr (b @ ''DISTINCT '')
    | Some (d # ds) \<Rightarrow>
        bindE (appendList env fmter (d # ds) 0 (b @ ''DISTINCT ON (''))
          (\<lambda>b. Inr (b @ '') ''))) = app (distinctText env fmter q) b"
proof (cases "distinctOn (core q)")
  case None
  then show ?thesis by (simp add: distinctText_def)
next
  case (Some xs)
  show ?thesis
  proof (cases xs)
    case Nil
    with Some show ?thesis by (simp add: distinctText_def)
  next
    case (Cons d ds)
    with Some show ?thesis
      by (cases "sepE '', '' (map (AppendArgs env fmter) (d # ds))")
         (simp_all add: distinctText_def appendList_zero del: appendList.simps)
  qed
qed

lemma L_tables:
  "(if hasTables env (baseQuery.truncate (core q)) then appendTables env fmter q b else Inr b)
     = app (fromText env fmter q) b"
  by (cases "appendTablesWithAlias env fmter (baseQuery.truncate (core q))")
     (simp_all add: fromText_def appendTables_def)

lemma foldE_hasOne:
  "foldE (\<lambda>j b. app (X j) (b @ '' '')) js b = app (seqE (map (\<lambda>j. seqE [Inr '' '', X j]) js)) b"
proof (induction js arbitrary: b)
  case Nil
  show ?case by simp
next
  case (Cons j js)
  show ?case
    by (cases "X j"; cases "seqE (map (\<lambda>j. seqE [Inr '' '', X j]) js)")
       (simp_all add: Cons.IH)
qed

lemma L_hasOne:
  "forEachHasOneJoin (\<lambda>j b. app (appendHasOneJoin env fmter j q) (b @ '' '')) q b =
     app (hasOneJoinsText env fmter q) b"
  by (simp only: forEachHasOneJoin_foldE hasOneJoinsText_def foldE_hasOne)

lemma L_joins: "appendJoins env fmter (joins (core q)) b = app (joinsText env fmter q) b"
  by (simp add: joinsText_def appendJoins_text)

lemma L_group:
  "(if length (group_q (core q)) > 0
    then appendList env fmter (group_q (core q)) 0 (b @ '' GROUP BY '') else Inr b) =
     app (groupText env fmter q) b"
  by (cases "sepE '', '' (map (AppendArgs env fmter) (group_q (core q)))")
     (simp_all add: groupText_def appendList_zero)

lemma L_having:
  "(if length (having (core q)) > 0
    then appendHaving env fmter (having (core q)) 0 (b @ '' HAVING '') else Inr b) =
     app (havingText env fmter q) b"
  by (cases "sepE '' AND '' (map (parenText env fmter) (having (core q)))")
     (simp_all add: havingText_def appendHaving_zero)

lemma L_order: "appendOrder env fmter q b = app (orderText env fmter q) b"
  by (cases "sepE '', '' (map (AppendArgs env fmter) (order (core q)))")
     (simp_all add: orderText_def appendOrder_def appendList_zero)

lemma AppendInt_append: "AppendInt (b @ s) i = b @ AppendInt s i"
  by (simp add: AppendInt_def)

lemma L_limit:
  "(if limit (core q) \<noteq> 0 then AppendInt (b @ '' LIMIT '') (sint (limit (core q))) else b) =
     b @ limitText q"
  by (simp add: limitText_def AppendInt_append)

lemma L_offset:
  "(if offset (core q) \<noteq> 0 then AppendInt (b @ '' OFFSET '') (sint (offset (core q))) else b) =
     b @ offsetText q"
  by (simp add: offsetText_def AppendInt_append)

lemma L_for:
  "(if \<not> IsZero (selFor (core q)) then appendArgs env fmter (selFor (core q)) (b @ '' FOR '')
    else Inr b) = app (forText env fmter q) b"
  by (cases "AppendArgs env fmter (selFor (core q))")
     (simp_all add: forText_def appendArgs_def)

lemma endsOk_append: "2 \<le> length y \<Longrightarrow> endsOk (x @ y) = endsOk y"
proof -
  assume len: "2 \<le> length y"
  then have "y \<noteq> []" and "butlast y \<noteq> []"
    by (auto simp: length_0_conv [symmetric] simp del: length_0_conv)
  then show ?thesis
    using len by (simp add: endsOk_def butlast_append)
qed

lemma distinctText_endsOk:
  assumes "distinctText env fmter q = Inr d"
  shows "endsOk (x @ ''SELECT '' @ d)"
proof -
  have "endsOk (''SELECT '' @ d)"
  proof (cases "distinctOn (core q)")
    case None
    with assms show ?thesis by (auto simp: distinctText_def endsOk_def)
  next
    case (Some xs)
    show ?thesis
    proof (cases xs)
      case Nil
      with Some assms show ?thesis by (auto simp: distinctText_def endsOk_def)
    next
      case (Cons y ys)
      with Some assms show ?thesis
        by (cases "sepE '', '' (map (AppendArgs env fmter) (y # ys))")
           (auto simp: distinctText_def endsOk_def butlast_append)
    qed
  qed
  moreover have "2 \<le> length (''SELECT '' @ d)" by simp
  ultimately show ?thesis by (simp only: endsOk_append)
qed

lemma appendSelect_chain:
  "appendSelect env fmter q b count =
     bindE (app (withText env fmter q) (b @ prefixText q count)) (\<lambda>b.
     bindE (app (distinctText env fmter q) (b @ ''SELECT '')) (\<lambda>b.
     bindE (if count \<and> \<not> cteCount q count then Inr (b @ ''count(*)'')
            else appendColumns env fmter q b) (afterColumns env fmter q count)))"
  unfolding appendSelect_def Let_def L_distinct L_tables L_hasOne L_joins L_group L_having
    L_order L_limit L_offset L_for afterColumns_def
  by (simp add: withText_def whereText_def prefixText_def)

lemma afterColumns_text:
  "afterColumns env fmter q count b =
     app (seqE [bodyText env fmter q, (if count then Inr [] else tailText env fmter q)]) b"
  unfolding afterColumns_def bodyText_def tailText_def
  apply (cases "fromText env fmter q"; simp)
  apply (cases "hasOneJoinsText env fmter q"; simp)
  apply (cases "joinsText env fmter q"; simp)
  apply (cases "whereText env fmter q"; simp)
  apply (cases "groupText env fmter q"; simp)
  apply (cases "havingText env fmter q"; simp)
  apply (cases "orderText env fmter q"; simp)
  apply (cases "forText env fmter q"; simp)
  done

lemma columns_step:
  "endsOk B \<Longrightarrow>
   (if c then Inr (B @ ''count(*)'') else appendColumns env fmter q B) =
     app (if c then Inr ''count(*)'' else columnListText env fmter q) B"
  by (cases c) (simp_all add: appendColumns_text)

lemma appendSelect_text:
  "appendSelect env fmter q b count = app (selectText env fmter q count) b"
proof (cases "withText env fmter q")
  case (Inl e)
  then show ?thesis
    by (simp add: appendSelect_chain selectText_def headText_def)
next
  case w: (Inr w)
  show ?thesis
  proof (cases "distinctText env fmter q")
    case (Inl e)
    with w show ?thesis
      by (simp add: appendSelect_chain selectText_def headText_def)
  next
    case d: (Inr d)
    define B where "B = (((b @ prefixText q count) @ w) @ ''SELECT '') @ d"
    define colT where "colT =
      (if count \<and> \<not> cteCount q count then Inr ''count(*)'' else columnListText env fmter q)"
    define rest where "rest = seqE [bodyText env fmter q, (if count then Inr [] else tailText env fmter q)]"
    have ok: "endsOk B"
      using distinctText_endsOk [OF d, of "(b @ prefixText q count) @ w"]
      by (simp add: B_def)
    have col: "(if count \<and> \<not> cteCount q count then Inr (B @ ''count(*)'')
                else appendColumns env fmter q B) = app colT B"
      unfolding colT_def by (rule columns_step [OF ok])
    have "appendSelect env fmter q b count =
            bindE (if count \<and> \<not> cteCount q count then Inr (B @ ''count(*)'')
                   else appendColumns env fmter q B) (afterColumns env fmter q count)"
      unfolding appendSelect_chain w d B_def by (simp only: app_Inr bindE_Inr)
    also have "\<dots> = bindE (app colT B) (\<lambda>b. app rest b)"
      unfolding col rest_def afterColumns_text ..
    also have "\<dots> = app (seqE [colT, rest]) B"
      by (cases colT; cases rest) simp_all
    also have "\<dots> = app (seqE [seqE [Inr (if cteCount q count
                then ''WITH _count_wrapper AS ('' else []), headText env fmter q, colT], rest]) b"
      by (cases colT; cases rest) (simp_all add: headText_def w d B_def prefixText_def)
    also have "seqE [seqE [Inr (if cteCount q count then ''WITH _count_wrapper AS ('' else []),
                 headText env fmter q, colT], rest] = selectText env fmter q count"
      unfolding selectText_def colT_def rest_def
      using seqE_append [of "[Inr (if cteCount q count then ''WITH _count_wrapper AS ('' else []),
                 headText env fmter q, (if count \<and> \<not> cteCount q count then Inr ''count(*)''
                 else columnListText env fmter q)]"
               "[bodyText env fmter q, (if count then Inr [] else tailText env fmter q)]"]
      by (simp only: append_Cons append_Nil)
    finally show ?thesis .
  qed
qed

lemma appendQuery_appendUnion_text:
  fixes b :: string
  shows "\<forall>b'. appendQuery env fmter q b' count = app (queryText env fmter q count) b'"
    and "\<forall>b'. appendUnion env fmter us b' = app (unionText env fmter us) b'"
proof (induction env fmter q b count and env fmter us b rule: appendQuery_appendUnion.induct)
  case (1 env fmter f us b count)
  show ?case
  proof
    fix b'
    show "appendQuery env fmter (SelectQuery f us) b' count =
            app (queryText env fmter (SelectQuery f us) count) b'"
    proof (cases "err f")
      case (Some e)
      then show ?thesis by (simp add: queryText_def)
    next
      case None
      have IH: "us \<noteq> [] \<Longrightarrow> appendUnion env fmter us b'' = app (unionText env fmter us) b''" for b''
        using "1.IH" [OF None] by simp
      show ?thesis
      proof (cases "selectText env fmter (SelectQuery f us) count")
        case (Inl e)
        with None show ?thesis by (simp add: queryText_def appendSelect_text)
      next
        case (Inr s)
        show ?thesis
        proof (cases "us = []")
          case True
          with None Inr show ?thesis
            by (simp add: queryText_def appendSelect_text setOpsText_def)
        next
          case False
          with None Inr IH show ?thesis
            by (cases "unionText env fmter us")
               (simp_all add: queryText_def appendSelect_text setOpsText_def)
        qed
      qed
    qed
  qed
next
  case (2 env fmter b)
  show ?case by (simp add: unionText_def)
next
  case (3 env fmter expr u us b)
  have IH1: "appendQuery env (formatterWithModel env fmter u) u b' False =
               app (queryText env (formatterWithModel env fmter u) u False) b'" for b'
    using "3.IH"(1) by simp
  have IH2: "appendUnion env fmter us b' = app (unionText env fmter us) b'" for b'
    using "3.IH"(2) by simp
  show ?case
  proof
    fix b'
    show "appendUnion env fmter ((expr, u) # us) b' =
            app (unionText env fmter ((expr, u) # us)) b'"
      by (cases "queryText env (formatterWithModel env fmter u) u False";
          cases "unionText env fmter us")
         (simp_all add: IH1 IH2 unionText_def AppendQuery_def)
  qed
qed

subsection \<open>The order of the clauses\<close>

lemma appendQuery_text:
  "appendQuery env fmter q b count = app (queryText env fmter q count) b"
  using appendQuery_appendUnion_text(1) [of env fmter q count] by simp

lemma AppendQuery_text:
  "AppendQuery env fmter q b = app (queryText env (formatterWithModel env fmter q) q False) b"
  by (simp add: AppendQuery_def appendQuery_text)

lemma seqE_flat: "seqE (seqE xs # ys) = seqE (xs @ ys)"
proof -
  have "seqE (seqE xs # ys) = seqE [seqE xs, seqE ys]"
    by (cases "seqE xs"; cases "seqE ys") simp_all
  then show ?thesis by (simp only: seqE_append)
qed

lemma seqE_Cons_eq: "seqE xs = seqE ys \<Longrightarrow> seqE (m # xs) = seqE (m # ys)"
  by simp

lemma seqE_Inr_Nil: "seqE (Inr [] # ys) = seqE ys"
  by (cases "seqE ys") simp_all

lemma seqE_snoc_Nil: "seqE (xs @ [Inr []]) = seqE xs"
  by (cases "seqE xs") (simp_all add: seqE_append)

lemma decimal_11: "decimal 11 = ''11''"
  by (simp add: decimal.simps)

lemmas clause_defs =
  queryText_def selectText_def headText_def bodyText_def tailText_def cteCount_def
  setOpsText_def unionText_def withText_def distinctText_def columnListText_def columnBase_def
  columnBlock_def columnText_def joinColumnText_def aliasedField_def modelHasOneJoins_def
  joinPieces_def TrimSuffix_def fromText_def hasOneJoinsText_def joinsText_def joinText_def
  onText_def parenText_def whereText_def groupText_def havingText_def orderText_def
  limitText_def offsetText_def forText_def IsZero_def joinStrings_def sepE_def
  baseQuery.defs whereBaseQuery.defs QueryWithArgs.defs

lemma env0_simps:
  "formatterWithModel env0 f q = f"
  "IsNop env0 f = f"
  "AppendArgs env0 f a =
     Inr (case Args a of None \<Rightarrow> Query a | Some as \<Rightarrow> substArgs (Query a) as)"
  "AppendString env0 s = [CHR 0x27] @ s @ [CHR 0x27]"
  "appendFields env0 alias fs = joinStrings '', '' (map (\<lambda>f. alias @ ''.'' @ SQLName f) fs)"
  "appendWith env0 f bq = Inr []"
  "hasTables env0 bq \<longleftrightarrow> table bq \<noteq> None \<or> tables bq \<noteq> []"
  "appendTablesWithAlias env0 f bq =
     Inr (joinStrings '', ''
       ((case table bq of None \<Rightarrow> [] | Some t \<Rightarrow> [SQLAlias t]) @ map Query (tables bq)))"
  "appendWhere env0 f wq withAlias =
     Inr (case where_q wq of
            [] \<Rightarrow> []
          | w # ws \<Rightarrow> '' WHERE ('' @ Query w @ '')'' @
                      concat (map (\<lambda>w. Sep w @ ''('' @ Query w @ '')'') ws))"
  "appendHasOneJoin env0 f j q = Inr (''LEFT JOIN '' @ Relation_Name j)"
  "applyQuery env0 j q = j"
  "appendAlias env0 f j = Relation_Name j"
  "appendAliasColumn env0 f j name = Relation_Name j @ ''__'' @ name"
  by (simp_all add: env0_def)

lemmas sample_defs =
  env0_simps wideQuery_def wideTable_def mkTable_def mkField_def NewSelectQuery_def zeroQuery_def
  upd_def

lemma wide: "AppendQuery env0 True wideQuery [] =
   Inr (''SELECT t.'' @ [CHR 0x27] @ ''11 columns'' @ [CHR 0x27] @ '' FROM t'')"
  by (simp add: AppendQuery_text clause_defs sample_defs decimal.simps)

lemma wide2: "AppendQuery env0 False wideQuery [] =
   Inr (''SELECT t.c1, t.c2, t.c3, t.c4, t.c5, t.c6, t.c7, t.c8, t.c9, t.c10, t.c11 FROM t'')"
  by (simp add: AppendQuery_text clause_defs sample_defs decimal.simps)

lemmas op_defs =
  Union_q_def addUnion_def TableExpr_def addTable_def Limit_def Offset_def Order_def
  foldl.simps orderStep_fragment orderFragment_def asciiUpper_def sortDirections_def Group_def Where_def addWhere_def
  JoinOn_def joinOn_def Join_q_def SafeQuery_def SafeQueryWithSep_def UnsafeIdent_def
  userQuery_def userTable_def profileJoin_def postsJoin_def

lemma columnText_spec:
  "tbl \<noteq> None \<or> Args col \<noteq> None \<Longrightarrow>
     columnText env fmter tbl col = specColumn env fmter tbl col"
  by (auto simp: columnText_def specColumn_def split: option.splits)

lemma columnBase_spec:
  assumes "table (core q) \<noteq> None \<or>
           (\<forall>cols. columns (core q) = Some cols \<longrightarrow> (\<forall>c\<in>set cols. Args c \<noteq> None))"
  shows "columnBase env fmter q = specBase env fmter q"
proof (cases "columns (core q)")
  case None
  then show ?thesis by (simp add: columnBase_def specBase_def)
next
  case (Some cols)
  have "map (columnText env fmter (table (core q))) cols =
        map (specColumn env fmter (table (core q))) cols"
    using assms Some by (intro map_cong refl columnText_spec) auto
  then show ?thesis
    unfolding columnBase_def specBase_def Some by (simp only: option.case)
qed

lemma columnBlock_spec:
  "join_columns (applyQuery env j q) = None \<Longrightarrow>
     columnBlock env fmter q j = Inr (specBlock env fmter q j)"
  by (simp add: columnBlock_def specBlock_def Let_def)

lemma allE_map_Inr: "allE (map (\<lambda>x. Inr (g x)) xs) = Inr (map g xs)"
  by (induction xs) simp_all

lemma columnListText_spec:
  assumes "table (core q) \<noteq> None \<or>
           (\<forall>cols. columns (core q) = Some cols \<longrightarrow> (\<forall>c\<in>set cols. Args c \<noteq> None))"
    and "\<forall>j\<in>set (modelHasOneJoins q). join_columns (applyQuery env j q) = None"
  shows "columnListText env fmter q = specColumnList env fmter q"
proof -
  have "map (columnBlock env fmter q) (modelHasOneJoins q) =
        map (\<lambda>j. Inr (specBlock env fmter q j)) (modelHasOneJoins q)"
    using assms(2) by (intro map_cong refl columnBlock_spec) auto
  then have "allE (map (columnBlock env fmter q) (modelHasOneJoins q)) =
             Inr (map (specBlock env fmter q) (modelHasOneJoins q))"
    by (simp only: allE_map_Inr)
  then show ?thesis
    unfolding columnListText_def specColumnList_def columnBase_spec [OF assms(1)] allE.simps
    by (cases "specBase env fmter q") (simp_all only: bindE_Inl bindE_Inr)
qed

text \<open>
  Claim C1, as amended. Take a query with no recorded error, whose explicit columns
  without arguments, if it has some, come with a bound table, and whose eager to-one
  relations have no column list of their own. The exported \<^verbatim>\<open>AppendQuery\<close> appends to the
  buffer the clauses in this order (\<open>seqE\<close>): the opening parenthesis when there are set
  operations, the \<^verbatim>\<open>WITH\<close> clause, \<^verbatim>\<open>SELECT\<close> with \<^verbatim>\<open>DISTINCT\<close> or \<^verbatim>\<open>DISTINCT ON (...)\<close>,
  the column list of the specification (\<open>specColumnList\<close>: the explicit columns, or else
  the fields of the table metadata, abbreviated to one placeholder for a no-op formatter
  and more than ten fields, or else \<^verbatim>\<open>*\<close>; then, per eager to-one relation, the block of
  its fields with relation-prefixed aliases), \<^verbatim>\<open>FROM\<close>, the joins of the to-one relations
  in declaration order and recursively (\<open>hasOneJoins\<close>), the explicit joins, \<^verbatim>\<open>WHERE\<close>,
  \<^verbatim>\<open>GROUP BY\<close>, \<^verbatim>\<open>HAVING\<close>, \<^verbatim>\<open>ORDER BY\<close>, \<^verbatim>\<open>LIMIT\<close>, \<^verbatim>\<open>OFFSET\<close>, the locking clause, and
  the closing parenthesis with the set operations.
\<close>

theorem AppendQuery_clause_order:
  assumes "err (core q) = None"
    and "table (core q) \<noteq> None \<or>
         (\<forall>cols. columns (core q) = Some cols \<longrightarrow> (\<forall>c\<in>set cols. Args c \<noteq> None))"
    and "\<forall>j\<in>set (modelHasOneJoins q). join_columns (applyQuery env j q) = None"
  shows "AppendQuery env fmter q b =
           (let f = formatterWithModel env fmter q in
            app (seqE
              [Inr (if union_q q = [] then [] else ''(''),
               withText env f q, Inr ''SELECT '', distinctText env f q,
               specColumnList env f q,
               fromText env f q, hasOneJoinsText env f q, joinsText env f q,
               whereText env f q, groupText env f q, havingText env f q,
               orderText env f q, Inr (limitText q), Inr (offsetText q), forText env f q,
               setOpsText env f q]) b)"
proof -
  have "queryText env f q False =
          seqE [Inr (if union_q q = [] then [] else ''(''),
               withText env f q, Inr ''SELECT '', distinctText env f q,
               columnListText env f q,
               fromText env f q, hasOneJoinsText env f q, joinsText env f q,
               whereText env f q, groupText env f q, havingText env f q,
               orderText env f q, Inr (limitText q), Inr (offsetText q), forText env f q,
               setOpsText env f q]" for f
    unfolding queryText_def selectText_def headText_def bodyText_def tailText_def cteCount_def
      assms(1)
    apply (simp only: option.case if_False simp_thms seqE_flat seqE_Inr_Nil append_Cons append_Nil)
    apply (intro seqE_Cons_eq)
    apply (simp only: seqE_flat append_Cons append_Nil)
    apply (intro seqE_Cons_eq)
    apply (simp only: seqE_flat append_Cons append_Nil)
    apply (intro seqE_Cons_eq)
    apply simp
    done
  then show ?thesis
    by (simp only: AppendQuery_text Let_def columnListText_spec [OF assms(2,3)])
qed

lemmas spec_defs = specColumnList_def specBase_def specBlock_def specColumn_def

text \<open>The theorem at a query with relations, a join, conditions and a set operation.\<close>

theorem AppendQuery_clause_order_witness:
  "err (core sampleQuery) = None \<and> table (core sampleQuery) \<noteq> None \<and>
   modelHasOneJoins sampleQuery =
     [profileJoin, Join BelongsToRelation ''profile__city'' None [mkField ''zip''] []] \<and>
   join_columns (applyQuery env0 profileJoin sampleQuery) = None \<and>
   AppendQuery env0 False sampleQuery [] =
     Inr (''(SELECT u.id, u.name, profile.bio AS profile__bio, '' @
          ''profile__city.zip AS profile__city__zip FROM u LEFT JOIN profile '' @
          ''LEFT JOIN profile__city JOIN orgs AS o ON (o.id = u.org_id) WHERE (age > 18) '' @
          ''GROUP BY id ORDER BY '' @ [CHR 0x22] @ ''name'' @ [CHR 0x22] @
          '' desc LIMIT 10 OFFSET 20) UNION (SELECT * FROM archive)'')"
proof -
  have e: "err (core sampleQuery) = None"
    by (simp add: sampleQuery_def op_defs sample_defs)
  have t: "table (core sampleQuery) \<noteq> None"
    by (simp add: sampleQuery_def op_defs sample_defs)
  have t': "table (core sampleQuery) \<noteq> None \<or>
         (\<forall>cols. columns (core sampleQuery) = Some cols \<longrightarrow> (\<forall>c\<in>set cols. Args c \<noteq> None))"
    using t by simp
  have js: "modelHasOneJoins sampleQuery =
     [profileJoin, Join BelongsToRelation ''profile__city'' None [mkField ''zip''] []]"
    by (simp add: modelHasOneJoins_def sampleQuery_def op_defs sample_defs)
  have c: "join_columns (applyQuery env0 profileJoin sampleQuery) = None"
    by (simp add: env0_simps profileJoin_def)
  have r: "\<forall>j\<in>set (modelHasOneJoins sampleQuery). join_columns (applyQuery env0 j sampleQuery) = None"
    by (simp add: js env0_simps profileJoin_def)
  show ?thesis
    using e t js c AppendQuery_clause_order [OF e t' r, of False "[]"]
    by (simp add: AppendQuery_text clause_defs spec_defs sample_defs decimal.simps sampleQuery_def
          op_defs AppendInt_def)
qed

text \<open>
  Claim C1 as it is written fails for a no-op formatter and a table of eleven fields:
  the column list is the placeholder, not the fields of the table metadata.
\<close>

theorem AppendQuery_clause_order_counterexample:
  "err (core wideQuery) = None \<and>
   AppendQuery env0 True wideQuery [] =
     Inr (''SELECT t.'' @ [CHR 0x27] @ ''11 columns'' @ [CHR 0x27] @ '' FROM t'') \<and>
   AppendQuery env0 True wideQuery [] \<noteq>
     Inr (''SELECT '' @ appendFields env0 (SQLAlias wideTable) (Fields wideTable) @ '' FROM t'')"
  by (simp add: AppendQuery_text clause_defs sample_defs decimal.simps)

text \<open>
  The two hypotheses on the columns cannot be dropped. \<^verbatim>\<open>Column("id")\<close> on a query with no
  table reads \<^verbatim>\<open>q.table.FieldMap\<close> through the nil \<^verbatim>\<open>q.table\<close> (line 522; the case of line
  535 tests \<^verbatim>\<open>q.table != nil\<close>). And the columns of a relation are looked up in the field
  map of the table of the query, not of the joined table (line 580): \<^verbatim>\<open>bio\<close>, a field of
  the joined table only, is written with no alias, and \<^verbatim>\<open>id\<close> is aliased because the table
  of the query has a field of that name.
\<close>

lemma column_without_table:
  "AppendQuery env0 False (Column [''id''] NewSelectQuery) [] = Inl nilDeref"
  by (simp add: AppendQuery_text clause_defs sample_defs Column_def addColumn_def UnsafeIdent_def)

lemma relation_columns_outer_table:
  "AppendQuery env0 False bioQuery [] =
     Inr ''SELECT u.id, u.name, bio, profile.id AS profile__id FROM u LEFT JOIN profile''"
  by (simp add: AppendQuery_text clause_defs sample_defs bioQuery_def bioJoin_def userTable_def
        UnsafeIdent_def)

lemma queryText_plain:
  assumes "err (core q) = None"
  shows "queryText env f q False =
           seqE [headText env f q, columnListText env f q, bodyText env f q, tailText env f q,
                 setOpsText env f q]"
  unfolding queryText_def selectText_def cteCount_def assms
  apply (simp only: option.case if_False simp_thms seqE_flat seqE_Inr_Nil append_Cons append_Nil)
  apply (intro seqE_Cons_eq)
  apply simp
  done





lemma ucast_minus_one: "(ucast (- 1 :: 64 word) :: 32 word) = - 1"
  by (rule bit_word_eqI) (auto simp: bit_simps)

text \<open>
  Claim C10. In the plain render of a query with no recorded error, the texts between
  \<^verbatim>\<open>ORDER BY\<close> and the locking clause are \<open>limitText\<close> and \<open>offsetText\<close>: empty exactly
  when the stored limit (offset) is zero, and otherwise \<^verbatim>\<open>LIMIT\<close> (\<^verbatim>\<open>OFFSET\<close>) with the
  stored number in decimal, a negative number with its minus sign. So \<^verbatim>\<open>Limit(0)\<close> and
  \<^verbatim>\<open>Offset(0)\<close> give no clause, and \<^verbatim>\<open>Limit(-1)\<close> gives \<^verbatim>\<open>LIMIT -1\<close>.
\<close>

theorem limit_offset_clauses:
  assumes "err (core q) = None"
  shows "AppendQuery env fmter q b =
           (let f = formatterWithModel env fmter q in
            app (seqE [headText env f q, columnListText env f q, bodyText env f q,
                       orderText env f q, Inr (limitText q), Inr (offsetText q),
                       forText env f q, setOpsText env f q]) b) \<and>
         (limitText q = [] \<longleftrightarrow> limit (core q) = 0) \<and>
         (offsetText q = [] \<longleftrightarrow> offset (core q) = 0) \<and>
         (limit (core q) \<noteq> 0 \<longrightarrow>
            limitText q = '' LIMIT '' @ AppendInt [] (sint (limit (core q)))) \<and>
         (offset (core q) \<noteq> 0 \<longrightarrow>
            offsetText q = '' OFFSET '' @ AppendInt [] (sint (offset (core q)))) \<and>
         (\<forall>i. i < 0 \<longrightarrow> AppendInt [] i = CHR ''-'' # decimal (nat (- i))) \<and>
         limitText (Limit 0 q) = [] \<and> offsetText (Offset 0 q) = [] \<and>
         limitText (Limit (- 1) q) = '' LIMIT -1'' \<and>
         offsetText (Offset (- 1) q) = '' OFFSET -1''"
proof -
  have "queryText env f q False =
          seqE [headText env f q, columnListText env f q, bodyText env f q,
                orderText env f q, Inr (limitText q), Inr (offsetText q),
                forText env f q, setOpsText env f q]" for f
    unfolding queryText_plain [OF assms] tailText_def
    apply (intro seqE_Cons_eq)
    apply (simp only: seqE_flat append_Cons append_Nil)
    done
  then have 1: "AppendQuery env fmter q b =
           (let f = formatterWithModel env fmter q in
            app (seqE [headText env f q, columnListText env f q, bodyText env f q,
                       orderText env f q, Inr (limitText q), Inr (offsetText q),
                       forText env f q, setOpsText env f q]) b)"
    by (simp add: AppendQuery_text Let_def)
  have 2: "limitText (Limit (- 1) q) = '' LIMIT -1''"
    "offsetText (Offset (- 1) q) = '' OFFSET -1''"
    by (simp_all add: limitText_def offsetText_def Limit_def Offset_def core_upd ucast_minus_one
          AppendInt_def decimal.simps)
  show ?thesis
    using 1 2
    by (simp add: limitText_def offsetText_def AppendInt_def Limit_def Offset_def core_upd)
qed

text \<open>The theorem at a query with a limit and no offset.\<close>

theorem limit_offset_clauses_witness:
  "err (core adultsQuery) = None \<and> limit (core adultsQuery) \<noteq> 0 \<and>
   offset (core adultsQuery) = 0 \<and> (- 1 :: int) < 0 \<and>
   AppendQuery env0 False adultsQuery [] =
     Inr (''SELECT u.id, u.name, profile.bio AS profile__bio, '' @
          ''profile__city.zip AS profile__city__zip FROM u LEFT JOIN profile '' @
          ''LEFT JOIN profile__city WHERE (age > 18) ORDER BY name LIMIT 5'') \<and>
   limitText adultsQuery = '' LIMIT 5'' \<and> offsetText adultsQuery = [] \<and>
   AppendInt [] (- 1) = ''-1'' \<and>
   limitText (Limit 0 adultsQuery) = [] \<and>
   limitText (Limit (- 1) adultsQuery) = '' LIMIT -1''"
proof -
  have e: "err (core adultsQuery) = None"
    by (simp add: adultsQuery_def op_defs sample_defs)
  have l: "limit (core adultsQuery) \<noteq> 0" and o: "offset (core adultsQuery) = 0"
    by (simp_all add: adultsQuery_def op_defs sample_defs)
  note t = limit_offset_clauses [OF e, where env = env0 and fmter = False and b = "[]"]
  note render = t [THEN conjunct1]
  note lim = t [THEN conjunct2, THEN conjunct2, THEN conjunct2, THEN conjunct1, rule_format, OF l]
  note neg = t [THEN conjunct2, THEN conjunct2, THEN conjunct2, THEN conjunct2, THEN conjunct2,
                THEN conjunct1, rule_format, of "- 1"]
  note zero = t [THEN conjunct2, THEN conjunct2, THEN conjunct2, THEN conjunct2, THEN conjunct2,
                 THEN conjunct2, THEN conjunct1]
  note minus = t [THEN conjunct2, THEN conjunct2, THEN conjunct2, THEN conjunct2, THEN conjunct2,
                  THEN conjunct2, THEN conjunct2, THEN conjunct2, THEN conjunct1]
  have off: "offsetText adultsQuery = []"
    using t [THEN conjunct2, THEN conjunct2, THEN conjunct1] o by simp
  show ?thesis
    apply (simp only: render lim neg zero minus off e l o)
    apply (simp add: clause_defs sample_defs decimal.simps adultsQuery_def op_defs AppendInt_def)
    done
qed

subsection \<open>Join conditions without a join\<close>

lemma db0_simps:
  "db_fmter db0 = False"
  "makeQueryBytes db0 = []"
  "getModel db0 q dest =
     (case tableModel (core q) of
        None \<Rightarrow> if dest = [] then Inl errNilModel
                else Inr \<lparr>has_SetCap = False, as_tableModel = None\<rparr>
      | Some tm \<Rightarrow> Inr \<lparr>has_SetCap = True, as_tableModel = Some tm\<rparr>)"
  "QueryContext db0 s = Inr ()"
  "exec db0 s = Inr ()"
  "scan db0 s m = Inr 2"
  "QueryRow db0 s = (2, None)"
  "join_Select db0 j = None"
  "BeforeSelect db0 t = Some (\<lambda>q. (None, q))"
  "AfterSelect db0 t = Some (\<lambda>q. (None, q))"
  by (simp_all add: db0_def)

lemma appendQuery_err:
  "err (core q) = Some e \<Longrightarrow> appendQuery env fmter q b count = Inl e"
  by (cases q) simp

lemma AppendQuery_err:
  "err (core q) = Some e \<Longrightarrow> AppendQuery env fmter q b = Inl e"
  by (simp add: AppendQuery_def appendQuery_err)

lemma Rows_err: "err (core q) = Some e \<Longrightarrow> Rows env db q = ([Render], Inl e)"
  by (simp add: Rows_def AppendQuery_err)

lemma Exec_err: "err (core q) = Some e \<Longrightarrow> Exec env db q = ([Render], Inl e)"
  by (simp add: Exec_def AppendQuery_err)

lemma Count_err: "err (core q) = Some e \<Longrightarrow> Count env db q = ([Render], 0, Some e)"
  by (simp add: Count_def appendQuery_err)

lemma joinOn_no_joins:
  "joins (core q) = [] \<Longrightarrow> joinOn cond args sep q = upd (\<lambda>f. f\<lparr>err := Some errNoJoins\<rparr>) q"
  by (simp add: joinOn_def)

lemma Scan_err:
  assumes e: "err (core q) = Some e"
    and keep: "\<forall>t hook. table (core q) = Some t \<longrightarrow> BeforeSelect db t = Some hook \<longrightarrow>
                 err (core (snd (hook q))) = Some e"
  shows "snd (Scan env db q dest) \<noteq> None"
    and "\<forall>s. Query_sql s \<notin> set (fst (Scan env db q dest))"
    and "\<forall>m. getModel db q dest = Inr m \<longrightarrow>
           (\<forall>t hook. table (core q) = Some t \<longrightarrow> BeforeSelect db t = Some hook \<longrightarrow>
               fst (hook q) = None) \<longrightarrow>
           snd (Scan env db q dest) = Some e"
proof -
  have shape: "(\<exists>tr x. Scan env db q dest = (tr, Some x) \<and> (\<forall>s. Query_sql s \<notin> set tr)) \<and>
    (\<forall>m. getModel db q dest = Inr m \<longrightarrow>
           (\<forall>t hook. table (core q) = Some t \<longrightarrow> BeforeSelect db t = Some hook \<longrightarrow>
               fst (hook q) = None) \<longrightarrow>
           snd (Scan env db q dest) = Some e)"
  proof (cases "getModel db q dest")
    case (Inl x)
    then show ?thesis by (simp add: Scan_def)
  next
    case (Inr m)
    show ?thesis
    proof (cases "table (core q)")
      case None
      with Inr e show ?thesis
        by (simp add: Scan_def AppendQuery_err)
    next
      case (Some t)
      show ?thesis
      proof (cases "BeforeSelect db t")
        case None
        with Inr Some e show ?thesis
          by (simp add: Scan_def beforeSelectHook_def AppendQuery_err)
      next
        case hook: (Some hook)
        obtain r q1 where h: "hook q = (r, q1)" by (cases "hook q")
        from keep Some hook h have e1: "err (core q1) = Some e" by auto
        show ?thesis
        proof (cases r)
          case None
          with Inr Some hook h e1 show ?thesis
            by (simp add: Scan_def beforeSelectHook_def AppendQuery_err)
        next
          case (Some x)
          with Inr \<open>table (core q) = Some t\<close> hook h show ?thesis
            by (auto simp add: Scan_def beforeSelectHook_def)
        qed
      qed
    qed
  qed
  from shape show "snd (Scan env db q dest) \<noteq> None"
    by auto
  from shape show "\<forall>s. Query_sql s \<notin> set (fst (Scan env db q dest))"
    by auto
  from shape show "\<forall>m. getModel db q dest = Inr m \<longrightarrow>
           (\<forall>t hook. table (core q) = Some t \<longrightarrow> BeforeSelect db t = Some hook \<longrightarrow>
               fst (hook q) = None) \<longrightarrow>
           snd (Scan env db q dest) = Some e"
    by blast
qed

lemma Scan_getModel_err:
  "getModel db q dest = Inl x \<Longrightarrow> Scan env db q dest = ([], Some x)"
  by (simp add: Scan_def)

lemma Scan_hook_err:
  assumes "getModel db q dest = Inr m" and "table (core q) = Some t"
    and "BeforeSelect db t = Some hook" and "fst (hook q) = Some x"
  shows "snd (Scan env db q dest) = Some x"
    and "Render \<notin> set (fst (Scan env db q dest))"
    and "\<forall>s. Query_sql s \<notin> set (fst (Scan env db q dest))"
proof -
  obtain q1 where h: "hook q = (Some x, q1)"
    using assms(4) by (cases "hook q") simp
  have "Scan env db q dest =
          ((if 1 <s limit (core q) \<and> has_SetCap m then [SetCap (sint (limit (core q)))] else []) @
           [BeforeSelectHook], Some x)"
    using assms(1-3) h by (simp add: Scan_def beforeSelectHook_def)
  then show "snd (Scan env db q dest) = Some x"
    and "Render \<notin> set (fst (Scan env db q dest))"
    and "\<forall>s. Query_sql s \<notin> set (fst (Scan env db q dest))"
    by simp_all
qed

text \<open>
  Claim C3, as amended. On a query with no joins, \<^verbatim>\<open>JoinOn\<close> and \<^verbatim>\<open>JoinOnOr\<close> return the
  builder with the error \<^verbatim>\<open>bun: query has no joins\<close> in its error slot and nothing else
  changed. On that builder every render (\<^verbatim>\<open>appendQuery\<close> plain or counting, the exported
  \<^verbatim>\<open>AppendQuery\<close>) returns that error and no bytes, for every buffer; \<^verbatim>\<open>Rows\<close>, \<^verbatim>\<open>Exec\<close>
  and \<^verbatim>\<open>Count\<close> return it and hand no SQL to the driver. \<^verbatim>\<open>Scan\<close> calls \<^verbatim>\<open>getModel\<close> and
  the before-select hook before it renders: when \<^verbatim>\<open>getModel\<close> fails, \<^verbatim>\<open>Scan\<close> returns the
  error of \<^verbatim>\<open>getModel\<close> and does nothing else; when the before-select hook fails, \<^verbatim>\<open>Scan\<close>
  returns the error of the hook, without a render and without SQL; and provided a hook
  leaves the error slot as it is, \<^verbatim>\<open>Scan\<close> fails and hands no SQL to the driver in every
  case, and returns the stored error when \<^verbatim>\<open>getModel\<close> succeeds and the hook returns no
  error.
\<close>

theorem joinOn_without_joins:
  assumes "joins (core q) = []"
  shows "(let q' = JoinOn cond args q in
          q' = upd (\<lambda>f. f\<lparr>err := Some errNoJoins\<rparr>) q \<and>
          JoinOnOr cond args q = q' \<and>
          errNoJoins = Err ''bun: query has no joins'' \<and>
          appendQuery env fmter q' b count = Inl errNoJoins \<and>
          AppendQuery env fmter q' b = Inl errNoJoins \<and>
          Rows env db q' = ([Render], Inl errNoJoins) \<and>
          Exec env db q' = ([Render], Inl errNoJoins) \<and>
          Count env db q' = ([Render], 0, Some errNoJoins) \<and>
          (\<forall>x. getModel db q' dest = Inl x \<longrightarrow> Scan env db q' dest = ([], Some x)) \<and>
          (\<forall>m t hook x. getModel db q' dest = Inr m \<longrightarrow> table (core q') = Some t \<longrightarrow>
              BeforeSelect db t = Some hook \<longrightarrow> fst (hook q') = Some x \<longrightarrow>
              snd (Scan env db q' dest) = Some x \<and>
              Render \<notin> set (fst (Scan env db q' dest)) \<and>
              (\<forall>s. Query_sql s \<notin> set (fst (Scan env db q' dest)))) \<and>
          ((\<forall>t hook. table (core q') = Some t \<longrightarrow> BeforeSelect db t = Some hook \<longrightarrow>
               err (core (snd (hook q'))) = Some errNoJoins) \<longrightarrow>
           snd (Scan env db q' dest) \<noteq> None \<and>
           (\<forall>s. Query_sql s \<notin> set (fst (Scan env db q' dest))) \<and>
           (\<forall>m. getModel db q' dest = Inr m \<longrightarrow>
              (\<forall>t hook. table (core q') = Some t \<longrightarrow> BeforeSelect db t = Some hook \<longrightarrow>
                  fst (hook q') = None) \<longrightarrow>
              snd (Scan env db q' dest) = Some errNoJoins)))"
proof -
  define q' where "q' = JoinOn cond args q"
  have q': "q' = upd (\<lambda>f. f\<lparr>err := Some errNoJoins\<rparr>) q"
    by (simp add: q'_def JoinOn_def joinOn_no_joins [OF assms])
  have or: "JoinOnOr cond args q = q'"
    by (simp add: q' JoinOnOr_def joinOn_no_joins [OF assms])
  have e: "err (core q') = Some errNoJoins"
    by (simp add: q' core_upd)
  show ?thesis
    unfolding Let_def q'_def [symmetric]
  proof (intro conjI impI allI)
    show "q' = upd (\<lambda>f. f\<lparr>err := Some errNoJoins\<rparr>) q" by (rule q')
    show "JoinOnOr cond args q = q'" by (rule or)
    show "errNoJoins = Err ''bun: query has no joins''" by (rule errNoJoins_def)
    show "appendQuery env fmter q' b count = Inl errNoJoins" by (rule appendQuery_err [OF e])
    show "AppendQuery env fmter q' b = Inl errNoJoins" by (rule AppendQuery_err [OF e])
    show "Rows env db q' = ([Render], Inl errNoJoins)" by (rule Rows_err [OF e])
    show "Exec env db q' = ([Render], Inl errNoJoins)" by (rule Exec_err [OF e])
    show "Count env db q' = ([Render], 0, Some errNoJoins)" by (rule Count_err [OF e])
  next
    fix x assume "getModel db q' dest = Inl x"
    then show "Scan env db q' dest = ([], Some x)" by (rule Scan_getModel_err)
  next
    fix m t hook x
    assume a: "getModel db q' dest = Inr m" "table (core q') = Some t"
      "BeforeSelect db t = Some hook" "fst (hook q') = Some x"
    show "snd (Scan env db q' dest) = Some x" by (rule Scan_hook_err(1) [OF a])
    show "Render \<notin> set (fst (Scan env db q' dest))" by (rule Scan_hook_err(2) [OF a])
    fix s
    show "Query_sql s \<notin> set (fst (Scan env db q' dest))"
      using Scan_hook_err(3) [OF a] by simp
  next
    assume keep: "\<forall>t hook. table (core q') = Some t \<longrightarrow> BeforeSelect db t = Some hook \<longrightarrow>
               err (core (snd (hook q'))) = Some errNoJoins"
    show "snd (Scan env db q' dest) \<noteq> None"
      by (rule Scan_err(1) [OF e keep])
  next
    fix s
    assume keep: "\<forall>t hook. table (core q') = Some t \<longrightarrow> BeforeSelect db t = Some hook \<longrightarrow>
               err (core (snd (hook q'))) = Some errNoJoins"
    show "Query_sql s \<notin> set (fst (Scan env db q' dest))"
      using Scan_err(2) [OF e keep] by simp
  next
    fix m
    assume keep: "\<forall>t hook. table (core q') = Some t \<longrightarrow> BeforeSelect db t = Some hook \<longrightarrow>
               err (core (snd (hook q'))) = Some errNoJoins"
      and m: "getModel db q' dest = Inr m"
      and ok: "\<forall>t hook. table (core q') = Some t \<longrightarrow> BeforeSelect db t = Some hook \<longrightarrow>
                  fst (hook q') = None"
    show "snd (Scan env db q' dest) = Some errNoJoins"
      using Scan_err(3) [OF e keep] m ok by blast
  qed
qed

text \<open>
  The theorem at a query bound to a table with hooks.
\<close>

theorem joinOn_without_joins_witness:
  "joins (core userQuery) = [] \<and>
   noJoinQuery = upd (\<lambda>f. f\<lparr>err := Some errNoJoins\<rparr>) userQuery \<and>
   JoinOnOr ''o.id = u.org_id'' [] userQuery = noJoinQuery \<and>
   AppendQuery env0 False noJoinQuery ''-- '' = Inl (Err ''bun: query has no joins'') \<and>
   appendQuery env0 False noJoinQuery ''-- '' True = Inl (Err ''bun: query has no joins'') \<and>
   Rows env0 db0 noJoinQuery = ([Render], Inl (Err ''bun: query has no joins'')) \<and>
   Exec env0 db0 noJoinQuery = ([Render], Inl (Err ''bun: query has no joins'')) \<and>
   Count env0 db0 noJoinQuery = ([Render], 0, Some (Err ''bun: query has no joins'')) \<and>
   Scan env0 db0 noJoinQuery [] =
     ([BeforeSelectHook, Render], Some (Err ''bun: query has no joins'')) \<and>
   joins (core NewSelectQuery) = [] \<and>
   getModel db0 failedQuery [] = Inl (Err ''bun: Model(nil)'') \<and>
   Scan env0 db0 failedQuery [] = ([], Some (Err ''bun: Model(nil)''))"
proof -
  have j: "joins (core userQuery) = []"
    by (simp add: userQuery_def NewSelectQuery_def upd_def)
  note t = joinOn_without_joins [OF j, where cond = "''o.id = u.org_id''" and args = "[]"
      and env = env0 and fmter = False and b = "''-- ''" and db = db0 and dest = "[]",
      unfolded Let_def noJoinQuery_def [symmetric]]
  have e: "err (core noJoinQuery) = Some errNoJoins"
    by (subst t [where count = False, THEN conjunct1]) (simp add: core_upd)
  have keep: "\<forall>t hook. table (core noJoinQuery) = Some t \<longrightarrow> BeforeSelect db0 t = Some hook \<longrightarrow>
                err (core (snd (hook noJoinQuery))) = Some errNoJoins"
    using e by (auto simp: db0_simps)
  have ok: "\<forall>t hook. table (core noJoinQuery) = Some t \<longrightarrow> BeforeSelect db0 t = Some hook \<longrightarrow>
                fst (hook noJoinQuery) = None"
    by (auto simp: db0_simps)
  have m: "getModel db0 noJoinQuery [] =
             Inr \<lparr>has_SetCap = True, as_tableModel = Some \<lparr>GetJoins = [postsJoin, profileJoin]\<rparr>\<rparr>"
    by (subst t [where count = False, THEN conjunct1])
       (simp add: db0_simps core_upd userQuery_def NewSelectQuery_def upd_def)
  note c = t [where count = False]
  note c9 = c [THEN conjunct2, THEN conjunct2, THEN conjunct2, THEN conjunct2, THEN conjunct2,
               THEN conjunct2, THEN conjunct2, THEN conjunct2, THEN conjunct2, THEN conjunct2,
               THEN mp, OF keep]
  have scan: "snd (Scan env0 db0 noJoinQuery []) = Some errNoJoins"
    by (rule c9 [THEN conjunct2, THEN conjunct2, THEN spec, THEN mp, OF m, THEN mp, OF ok])
  have flds: "table (core noJoinQuery) = Some userTable" "limit (core noJoinQuery) = 0"
    "tableModel (core noJoinQuery) = Some \<lparr>GetJoins = [postsJoin, profileJoin]\<rparr>"
    by (simp_all add: noJoinQuery_def JoinOn_def joinOn_def userQuery_def NewSelectQuery_def
          upd_def)
  have tr: "fst (Scan env0 db0 noJoinQuery []) = [BeforeSelectHook, Render]"
    by (simp add: Scan_def m flds beforeSelectHook_def db0_simps AppendQuery_err [OF e]
          word_sless_alt)
  have j0: "joins (core NewSelectQuery) = []"
    by (simp add: NewSelectQuery_def zeroQuery_def)
  note t0 = joinOn_without_joins [OF j0, where cond = "''a = b''" and args = "[]"
      and env = env0 and fmter = False and b = "[]" and db = db0 and dest = "[]"
      and count = False, unfolded Let_def failedQuery_def [symmetric]]
  have m0: "getModel db0 failedQuery [] = Inl errNilModel"
    by (subst t0 [THEN conjunct1]) (simp add: db0_simps core_upd NewSelectQuery_def zeroQuery_def)
  note s0 = t0 [THEN conjunct2, THEN conjunct2, THEN conjunct2, THEN conjunct2, THEN conjunct2,
                THEN conjunct2, THEN conjunct2, THEN conjunct2, THEN conjunct1, THEN spec,
                THEN mp, OF m0]
  from scan tr have "Scan env0 db0 noJoinQuery [] = ([BeforeSelectHook, Render], Some errNoJoins)"
    by (cases "Scan env0 db0 noJoinQuery []") simp
  moreover note j0 m0 s0
  moreover note j
    c [THEN conjunct1]
    c [THEN conjunct2, THEN conjunct1]
    c [THEN conjunct2, THEN conjunct2, THEN conjunct2, THEN conjunct2, THEN conjunct1]
    t [where count = True, THEN conjunct2, THEN conjunct2, THEN conjunct2, THEN conjunct1]
    c [THEN conjunct2, THEN conjunct2, THEN conjunct2, THEN conjunct2, THEN conjunct2,
       THEN conjunct1]
    c [THEN conjunct2, THEN conjunct2, THEN conjunct2, THEN conjunct2, THEN conjunct2,
       THEN conjunct2, THEN conjunct1]
    c [THEN conjunct2, THEN conjunct2, THEN conjunct2, THEN conjunct2, THEN conjunct2,
       THEN conjunct2, THEN conjunct2, THEN conjunct1]
  ultimately show ?thesis
    unfolding errNoJoins_def errNilModel_def by (intro conjI)
qed

text \<open>
  Claim C3 as it is written fails for \<^verbatim>\<open>Scan\<close>: after \<^verbatim>\<open>JoinOn\<close> on a new query, which has
  no model, \<^verbatim>\<open>Scan\<close> with no destination returns the error \<^verbatim>\<open>bun: Model(nil)\<close> of
  \<^verbatim>\<open>getModel\<close>, as the test \<^verbatim>\<open>testNilModel\<close> expects, and not the stored error.
\<close>

theorem Scan_after_joinOn_counterexample:
  "joins (core NewSelectQuery) = [] \<and>
   failedQuery = JoinOn ''a = b'' [] NewSelectQuery \<and>
   err (core failedQuery) = Some (Err ''bun: query has no joins'') \<and>
   Scan env0 db0 failedQuery [] = ([], Some (Err ''bun: Model(nil)'')) \<and>
   snd (Scan env0 db0 failedQuery []) \<noteq> Some (Err ''bun: query has no joins'')"
  by (simp add: failedQuery_def JoinOn_def joinOn_def NewSelectQuery_def upd_def zeroQuery_def
        errNoJoins_def errNilModel_def Scan_def db0_simps)

subsection \<open>Configuration operations and the error slot\<close>

lemma foldl_group:
  "foldl (\<lambda>q c. upd (\<lambda>f. f\<lparr>group_q := group_q f @ [UnsafeIdent c]\<rparr>) q) q cs =
     upd (\<lambda>f. f\<lparr>group_q := group_q f @ map UnsafeIdent cs\<rparr>) q"
proof (induction cs arbitrary: q)
  case Nil
  show ?case by (cases q) (simp add: upd_def)
next
  case (Cons c cs)
  show ?case by (simp add: Cons.IH upd_upd)
qed

lemma Group_upd: "Group cs q = upd (\<lambda>f. f\<lparr>group_q := group_q f @ map UnsafeIdent cs\<rparr>) q"
  by (simp add: Group_def foldl_group)

lemma foldl_orderStep:
  "foldl (orderStep up) q os =
     upd (\<lambda>f. f\<lparr>order := order f @ concat (map (orderFragment up) os)\<rparr>) q"
proof (induction os arbitrary: q)
  case Nil
  show ?case by (cases q) (simp add: upd_def)
next
  case (Cons s ss)
  have "foldl (orderStep up) q (s # ss) =
          upd (\<lambda>f. f\<lparr>order := order f @ concat (map (orderFragment up) ss)\<rparr>) (orderStep up q s)"
    using Cons.IH [of "orderStep up q s"] by simp
  also have "\<dots> = upd (\<lambda>f. f\<lparr>order := order f @ concat (map (orderFragment up) ss)\<rparr>)
                    (upd (\<lambda>f. f\<lparr>order := order f @ orderFragment up s\<rparr>) q)"
    by (simp only: orderStep_fragment)
  also have "\<dots> = upd (\<lambda>f. f\<lparr>order := order f @ concat (map (orderFragment up) (s # ss))\<rparr>) q"
    by (simp add: upd_upd)
  finally show ?case .
qed

text \<open>
  Claim C4, as amended. The configuration operations that the file defines in full (\<^verbatim>\<open>Limit\<close>, \<^verbatim>\<open>Offset\<close>, \<^verbatim>\<open>Group\<close>, \<^verbatim>\<open>GroupExpr\<close>, \<^verbatim>\<open>Having\<close>, \<^verbatim>\<open>Order\<close>, \<^verbatim>\<open>OrderExpr\<close>, \<^verbatim>\<open>Join\<close>, \<^verbatim>\<open>JoinOn\<close> after a join, \<^verbatim>\<open>Distinct\<close>, \<^verbatim>\<open>For\<close>, and the six set operations \<^verbatim>\<open>Union\<close>, \<^verbatim>\<open>UnionAll\<close>, \<^verbatim>\<open>Intersect\<close>, \<^verbatim>\<open>IntersectAll\<close>, \<^verbatim>\<open>Except\<close>, \<^verbatim>\<open>ExceptAll\<close>) do not read the error slot: each updates its clause of the builder in the same way whether or not an error is recorded, and leaves the error slot as it is. The render returns the stored error at once when one is set.
\<close>

theorem configuration_ignores_error:
  "Limit n q = upd (\<lambda>f. f\<lparr>limit := ucast n\<rparr>) q \<and>
   Offset n q = upd (\<lambda>f. f\<lparr>offset := ucast n\<rparr>) q \<and>
   Group cs q = upd (\<lambda>f. f\<lparr>group_q := group_q f @ map UnsafeIdent cs\<rparr>) q \<and>
   GroupExpr g args q = upd (\<lambda>f. f\<lparr>group_q := group_q f @ [SafeQuery g args]\<rparr>) q \<and>
   Having h args q = upd (\<lambda>f. f\<lparr>having := having f @ [SafeQuery h args]\<rparr>) q \<and>
   Order up os q = upd (\<lambda>f. f\<lparr>order := order f @ concat (map (orderFragment up) os)\<rparr>) q \<and>
   OrderExpr query args q = upd (\<lambda>f. f\<lparr>order := order f @ [SafeQuery query args]\<rparr>) q \<and>
   Join_q j args q = upd (\<lambda>f. f\<lparr>joins := joins f @ [\<lparr>join = SafeQuery j args, on = []\<rparr>]\<rparr>) q \<and>
   Distinct q = upd (\<lambda>f. f\<lparr>distinctOn := Some []\<rparr>) q \<and>
   For s args q = upd (\<lambda>f. f\<lparr>selFor := SafeQuery s args\<rparr>) q \<and>
   Union_q other q = SelectQuery (core q) (union_q q @ [('' UNION '', other)]) \<and>
   UnionAll other q = SelectQuery (core q) (union_q q @ [('' UNION ALL '', other)]) \<and>
   Intersect other q = SelectQuery (core q) (union_q q @ [('' INTERSECT '', other)]) \<and>
   IntersectAll other q = SelectQuery (core q) (union_q q @ [('' INTERSECT ALL '', other)]) \<and>
   Except other q = SelectQuery (core q) (union_q q @ [('' EXCEPT '', other)]) \<and>
   ExceptAll other q = SelectQuery (core q) (union_q q @ [('' EXCEPT ALL '', other)]) \<and>
   (joins (core q) \<noteq> [] \<longrightarrow>
      JoinOn cond args q =
        upd (\<lambda>f. f\<lparr>joins := butlast (joins f) @
               [(last (joins f))\<lparr>on := on (last (joins f)) @
                  [SafeQueryWithSep cond args '' AND '']\<rparr>]\<rparr>) q) \<and>
   (\<forall>e. err (core q) = Some e \<longrightarrow>
      appendQuery env fmter q b count = Inl e \<and> AppendQuery env fmter q b = Inl e)"
  by (simp add: Limit_def Offset_def Group_upd GroupExpr_def Having_def Order_def foldl_orderStep
        OrderExpr_def Join_q_def Distinct_def For_def Union_q_def UnionAll_def Intersect_def
        IntersectAll_def Except_def ExceptAll_def addUnion_def JoinOn_def
        joinOn_def appendQuery_err AppendQuery_err)

text \<open>
  Claim C4 as it is written fails: on a builder with a recorded error, \<^verbatim>\<open>Limit\<close>, \<^verbatim>\<open>Group\<close>, \<^verbatim>\<open>Order\<close> and \<^verbatim>\<open>Join\<close> still change the builder.
\<close>

theorem configuration_checks_error_counterexample:
  "err (core failedQuery) = Some errNoJoins \<and>
   limit (core failedQuery) = 0 \<and> limit (core (Limit 5 failedQuery)) = 5 \<and>
   group_q (core failedQuery) = [] \<and>
   group_q (core (Group [''id''] failedQuery)) = [UnsafeIdent ''id''] \<and>
   order (core failedQuery) = [] \<and>
   order (core (Order asciiUpper [''id''] failedQuery)) = [UnsafeIdent ''id''] \<and>
   joins (core failedQuery) = [] \<and>
   joins (core (Join_q ''JOIN t'' [] failedQuery)) = [\<lparr>join = SafeQuery ''JOIN t'' [], on = []\<rparr>]"
  by (simp add: failedQuery_def JoinOn_def joinOn_def NewSelectQuery_def upd_def Limit_def
        Group_def Order_def orderStep_def Join_q_def)

text \<open>
  The theorem at a builder with a recorded error.
\<close>

theorem configuration_ignores_error_witness:
  "err (core failedQuery) = Some errNoJoins \<and>
   Limit 5 failedQuery = upd (\<lambda>f. f\<lparr>limit := 5\<rparr>) failedQuery \<and>
   union_q (ExceptAll NewSelectQuery failedQuery) = [('' EXCEPT ALL '', NewSelectQuery)] \<and>
   joins (core (Join_q ''JOIN t'' [] failedQuery)) \<noteq> [] \<and>
   on (last (joins (core (JoinOn ''a = b'' [] (Join_q ''JOIN t'' [] failedQuery))))) =
     [SafeQueryWithSep ''a = b'' [] '' AND ''] \<and>
   AppendQuery env0 False (Limit 5 failedQuery) [] = Inl errNoJoins \<and>
   appendQuery env0 False (Limit 5 failedQuery) [] True = Inl errNoJoins"
proof -
  have e: "err (core (Limit 5 failedQuery)) = Some errNoJoins"
    by (simp add: failedQuery_def JoinOn_def joinOn_def NewSelectQuery_def upd_def Limit_def)
  have e0: "err (core failedQuery) = Some errNoJoins"
    by (simp add: failedQuery_def JoinOn_def joinOn_def NewSelectQuery_def upd_def)
  have j: "joins (core (Join_q ''JOIN t'' [] failedQuery)) \<noteq> []"
    by (simp add: Join_q_def core_upd)
  note t1 = configuration_ignores_error [where q = failedQuery and n = 5]
  note t2 = configuration_ignores_error [where q = "Join_q ''JOIN t'' [] failedQuery"
      and cond = "''a = b''" and args = "[]"]
  note t3 = configuration_ignores_error [where q = "Limit 5 failedQuery" and env = env0
      and fmter = False and b = "[]"]
  note lim = t1 [THEN conjunct1]
  note jo = t2 [THEN conjunct2, THEN conjunct2, THEN conjunct2, THEN conjunct2, THEN conjunct2,
      THEN conjunct2, THEN conjunct2, THEN conjunct2, THEN conjunct2, THEN conjunct2,
      THEN conjunct2, THEN conjunct2, THEN conjunct2, THEN conjunct2, THEN conjunct2,
      THEN conjunct2, THEN conjunct1, THEN mp, OF j]
  note r1 = t3 [where count = False, THEN conjunct2, THEN conjunct2, THEN conjunct2, THEN conjunct2,
      THEN conjunct2, THEN conjunct2, THEN conjunct2, THEN conjunct2, THEN conjunct2,
      THEN conjunct2, THEN conjunct2, THEN conjunct2, THEN conjunct2, THEN conjunct2,
      THEN conjunct2, THEN conjunct2, THEN conjunct2, THEN spec, THEN mp, OF e]
  note r2 = t3 [where count = True, THEN conjunct2, THEN conjunct2, THEN conjunct2, THEN conjunct2,
      THEN conjunct2, THEN conjunct2, THEN conjunct2, THEN conjunct2, THEN conjunct2,
      THEN conjunct2, THEN conjunct2, THEN conjunct2, THEN conjunct2, THEN conjunct2,
      THEN conjunct2, THEN conjunct2, THEN conjunct2, THEN spec, THEN mp, OF e]
  have on: "on (last (joins (core (JoinOn ''a = b'' [] (Join_q ''JOIN t'' [] failedQuery))))) =
     [SafeQueryWithSep ''a = b'' [] '' AND '']"
    by (subst jo) (simp add: core_upd Join_q_def)
  have l5: "Limit 5 failedQuery = upd (\<lambda>f. f\<lparr>limit := 5\<rparr>) failedQuery"
    using lim by simp
  have u0: "union_q failedQuery = []"
    by (simp add: failedQuery_def JoinOn_def joinOn_def NewSelectQuery_def upd_def)
  note ea = t1 [where other = NewSelectQuery, THEN conjunct2, THEN conjunct2, THEN conjunct2,
      THEN conjunct2, THEN conjunct2, THEN conjunct2, THEN conjunct2, THEN conjunct2,
      THEN conjunct2, THEN conjunct2, THEN conjunct2, THEN conjunct2, THEN conjunct2,
      THEN conjunct2, THEN conjunct2, THEN conjunct1]
  have un: "union_q (ExceptAll NewSelectQuery failedQuery) = [('' EXCEPT ALL '', NewSelectQuery)]"
    by (subst ea) (simp add: u0)
  from e0 l5 un j on r1 [THEN conjunct2] r2 [THEN conjunct1] show ?thesis
    by (intro conjI)
qed

subsection \<open>Relations that cannot be resolved\<close>

lemma setErr_None: "err (core q) = None \<Longrightarrow> setErr e q = upd (\<lambda>f. f\<lparr>err := Some e\<rparr>) q"
  by (simp add: setErr_def)

lemma setErr_Some: "err (core q) = Some e0 \<Longrightarrow> setErr e q = q"
  by (simp add: setErr_def)

lemma err_setErr:
  "err (core (setErr e q)) = Some (case err (core q) of None \<Rightarrow> e | Some e0 \<Rightarrow> e0)"
  by (cases "err (core q)") (simp_all add: setErr_def core_upd)

text \<open>
  Claim C7. \<^verbatim>\<open>Relation(name)\<close> on a query with no table model returns the builder after \<^verbatim>\<open>setErr(errNilModel)\<close>; on a query whose table model has no join for the name (the resolver returns nil), it returns the builder after \<^verbatim>\<open>setErr\<close> of the error \<^verbatim>\<open><table> does not have relation=<quoted name>\<close>. Neither case panics or fails at once. With no error recorded before, \<^verbatim>\<open>setErr\<close> stores the error and changes nothing else, and every render of the builder returns that error; with an error recorded before, the slot keeps the first error and the render returns it.
\<close>

theorem Relation_errors:
  "(tableModel (core q) = None \<longrightarrow> Relation renv name fns q = Inr (setErr errNilModel q)) \<and>
   (\<forall>tm. tableModel (core q) = Some tm \<longrightarrow> length fns \<le> 1 \<longrightarrow>
      tableModel_Join renv tm name (if length fns = 1 then Some (hd fns) else None) = None \<longrightarrow>
      Relation renv name fns q = Inr (setErr (errNoRelation renv q name) q)) \<and>
   errNilModel = Err ''bun: Model(nil)'' \<and>
   errNoRelation renv q name =
     Err (Sprint_table renv (table (core q)) @ '' does not have relation='' @ Quote renv name) \<and>
   (\<forall>e. err (core q) = None \<longrightarrow>
      setErr e q = upd (\<lambda>f. f\<lparr>err := Some e\<rparr>) q \<and>
      appendQuery env fmter (setErr e q) b count = Inl e \<and>
      AppendQuery env fmter (setErr e q) b = Inl e) \<and>
   (\<forall>e e0. err (core q) = Some e0 \<longrightarrow>
      setErr e q = q \<and> appendQuery env fmter (setErr e q) b count = Inl e0)"
proof (intro conjI allI impI)
  assume "tableModel (core q) = None"
  then show "Relation renv name fns q = Inr (setErr errNilModel q)"
    by (simp add: Relation_def)
next
  fix tm
  assume "tableModel (core q) = Some tm" and "length fns \<le> 1"
    and "tableModel_Join renv tm name (if length fns = 1 then Some (hd fns) else None) = None"
  then show "Relation renv name fns q = Inr (setErr (errNoRelation renv q name) q)"
    by (simp add: Relation_def Let_def)
next
  show "errNilModel = Err ''bun: Model(nil)''" by (rule errNilModel_def)
  show "errNoRelation renv q name =
     Err (Sprint_table renv (table (core q)) @ '' does not have relation='' @ Quote renv name)"
    by (rule errNoRelation_def)
next
  fix e assume n: "err (core q) = None"
  show "setErr e q = upd (\<lambda>f. f\<lparr>err := Some e\<rparr>) q" by (rule setErr_None [OF n])
  have "err (core (setErr e q)) = Some e" by (simp add: err_setErr n)
  then show "appendQuery env fmter (setErr e q) b count = Inl e"
    and "AppendQuery env fmter (setErr e q) b = Inl e"
    by (rule appendQuery_err, rule AppendQuery_err)
next
  fix e e0 assume s: "err (core q) = Some e0"
  show "setErr e q = q" by (rule setErr_Some [OF s])
  have "err (core (setErr e q)) = Some e0" by (simp add: err_setErr s)
  then show "appendQuery env fmter (setErr e q) b count = Inl e0"
    by (rule appendQuery_err)
qed

lemma renv0_simps:
  "tableModel_Join renv0 tm name fn =
     (if name = ''Profile'' then Some (tm\<lparr>GetJoins := GetJoins tm @ [profileJoin]\<rparr>) else None)"
  "Sprint_table renv0 t = (case t of None \<Rightarrow> ''<nil>'' | Some t \<Rightarrow> ''model='' @ SQLAlias t)"
  "Quote renv0 s = [CHR 0x22] @ s @ [CHR 0x22]"
  by (simp_all add: renv0_def)

text \<open>
  The theorem at a new query, at a query bound to a table for an unknown relation name, and at a builder with an earlier error.
\<close>

theorem Relation_errors_witness:
  "tableModel (core NewSelectQuery) = None \<and> err (core NewSelectQuery) = None \<and>
   Relation renv0 ''Profile'' [] NewSelectQuery =
     Inr (upd (\<lambda>f. f\<lparr>err := Some (Err ''bun: Model(nil)'')\<rparr>) NewSelectQuery) \<and>
   AppendQuery env0 False (setErr errNilModel NewSelectQuery) [] = Inl (Err ''bun: Model(nil)'') \<and>
   tableModel (core userQuery) = Some \<lparr>GetJoins = [postsJoin, profileJoin]\<rparr> \<and>
   err (core userQuery) = None \<and>
   tableModel_Join renv0 \<lparr>GetJoins = [postsJoin, profileJoin]\<rparr> ''Nope'' None = None \<and>
   Relation renv0 ''Nope'' [] userQuery =
     Inr (upd (\<lambda>f. f\<lparr>err := Some (Err (''model=u does not have relation='' @ [CHR 0x22] @
                                         ''Nope'' @ [CHR 0x22]))\<rparr>) userQuery) \<and>
   AppendQuery env0 False (setErr (errNoRelation renv0 userQuery ''Nope'') userQuery) [] =
     Inl (Err (''model=u does not have relation='' @ [CHR 0x22] @ ''Nope'' @ [CHR 0x22])) \<and>
   err (core failedQuery) = Some errNoJoins \<and>
   setErr errNilModel failedQuery = failedQuery \<and>
   appendQuery env0 False (setErr errNilModel failedQuery) [] False = Inl errNoJoins"
proof -
  have n1: "tableModel (core NewSelectQuery) = None" and e1: "err (core NewSelectQuery) = None"
    by (simp_all add: NewSelectQuery_def)
  have n2: "tableModel (core userQuery) = Some \<lparr>GetJoins = [postsJoin, profileJoin]\<rparr>"
    and e2: "err (core userQuery) = None"
    and t2: "table (core userQuery) = Some userTable"
    by (simp_all add: userQuery_def NewSelectQuery_def upd_def)
  have r2: "tableModel_Join renv0 \<lparr>GetJoins = [postsJoin, profileJoin]\<rparr> ''Nope''
              (if length ([] :: (SelectQuery \<Rightarrow> SelectQuery) list) = 1 then Some (hd [])
               else None) = None"
    by (simp add: renv0_simps)
  have e3: "err (core failedQuery) = Some errNoJoins"
    by (simp add: failedQuery_def JoinOn_def joinOn_def NewSelectQuery_def upd_def)
  note a = Relation_errors [where q = NewSelectQuery and renv = renv0 and name = "''Profile''"
      and fns = "[]" and env = env0 and fmter = False and b = "[]" and count = False]
  note b = Relation_errors [where q = userQuery and renv = renv0 and name = "''Nope''"
      and fns = "[]" and env = env0 and fmter = False and b = "[]" and count = False]
  note c = Relation_errors [where q = failedQuery and renv = renv0 and name = "''Nope''"
      and fns = "[]" and env = env0 and fmter = False and b = "[]" and count = False]
  note nilm = a [THEN conjunct2, THEN conjunct2, THEN conjunct1]
  note a1 = a [THEN conjunct1, THEN mp, OF n1]
  note a5 = a [THEN conjunct2, THEN conjunct2, THEN conjunct2, THEN conjunct2, THEN conjunct1,
      THEN spec, THEN mp, OF e1]
  note b2 = b [THEN conjunct2, THEN conjunct1, THEN spec, THEN mp, OF n2, THEN mp, THEN mp, OF _ r2]
  note b4 = b [THEN conjunct2, THEN conjunct2, THEN conjunct2, THEN conjunct1]
  note b5 = b [THEN conjunct2, THEN conjunct2, THEN conjunct2, THEN conjunct2, THEN conjunct1,
      THEN spec, THEN mp, OF e2]
  note c6 = c [THEN conjunct2, THEN conjunct2, THEN conjunct2, THEN conjunct2, THEN conjunct2,
      THEN spec, THEN spec, THEN mp, OF e3]
  have msg: "errNoRelation renv0 userQuery ''Nope'' =
      Err (''model=u does not have relation='' @ [CHR 0x22] @ ''Nope'' @ [CHR 0x22])"
    by (simp add: b4 t2 renv0_simps userTable_def mkTable_def)
  have A: "Relation renv0 ''Profile'' [] NewSelectQuery =
     Inr (upd (\<lambda>f. f\<lparr>err := Some (Err ''bun: Model(nil)'')\<rparr>) NewSelectQuery)"
    using a1 a5 [of errNilModel, THEN conjunct1] nilm by simp
  have A2: "AppendQuery env0 False (setErr errNilModel NewSelectQuery) [] = Inl (Err ''bun: Model(nil)'')"
    using a5 [of errNilModel, THEN conjunct2, THEN conjunct2] nilm by simp
  have B: "Relation renv0 ''Nope'' [] userQuery =
     Inr (upd (\<lambda>f. f\<lparr>err := Some (Err (''model=u does not have relation='' @ [CHR 0x22] @
                                         ''Nope'' @ [CHR 0x22]))\<rparr>) userQuery)"
    using b2 b5 [of "errNoRelation renv0 userQuery ''Nope''", THEN conjunct1] msg
    by simp
  have B2: "AppendQuery env0 False (setErr (errNoRelation renv0 userQuery ''Nope'') userQuery) [] =
     Inl (Err (''model=u does not have relation='' @ [CHR 0x22] @ ''Nope'' @ [CHR 0x22]))"
    using b5 [of "errNoRelation renv0 userQuery ''Nope''", THEN conjunct2, THEN conjunct2] msg
    by simp
  have r2': "tableModel_Join renv0 \<lparr>GetJoins = [postsJoin, profileJoin]\<rparr> ''Nope'' None = None"
    by (simp add: renv0_simps)
  from n1 e1 A A2 n2 e2 r2' B B2 e3 c6 [of errNilModel, THEN conjunct1]
    c6 [of errNilModel, THEN conjunct2]
  show ?thesis by (intro conjI)
qed

subsection \<open>\<^verbatim>\<open>WhereGroup\<close>\<close>

text \<open>
  Claim C8. \<^verbatim>\<open>WhereGroup(sep, fn)\<close> calls \<^verbatim>\<open>fn\<close> on the builder with an empty list of conditions and every other field as it is: the builder that \<^verbatim>\<open>fn\<close> receives is the same whatever the conditions of the parent are, so they are neither visible nor modifiable inside \<^verbatim>\<open>fn\<close>. The result is the builder that \<^verbatim>\<open>fn\<close> returns with its conditions replaced by the saved conditions of the parent followed by the group that \<^verbatim>\<open>addWhereGroup\<close> makes of the separator and the conditions accumulated inside \<^verbatim>\<open>fn\<close>; columns, tables, joins, \<^verbatim>\<open>GROUP BY\<close>, \<^verbatim>\<open>HAVING\<close>, \<^verbatim>\<open>ORDER BY\<close>, limit, offset, the error slot and the set operations are those of the builder that \<^verbatim>\<open>fn\<close> returns.
\<close>

theorem WhereGroup_frame:
  "(let parent = upd (\<lambda>f. f\<lparr>where_q := []\<rparr>) q;
        inner = fn parent;
        result = WhereGroup grp sep fn q
    in where_q (core parent) = [] \<and>
       core parent = (core q)\<lparr>where_q := []\<rparr> \<and> union_q parent = union_q q \<and>
       (\<forall>ws. upd (\<lambda>f. f\<lparr>where_q := []\<rparr>) (upd (\<lambda>f. f\<lparr>where_q := ws\<rparr>) q) = parent) \<and>
       result = upd (\<lambda>f. f\<lparr>where_q := where_q (core q) @ grp sep (where_q (core inner))\<rparr>) inner \<and>
       where_q (core result) = where_q (core q) @ grp sep (where_q (core inner)) \<and>
       columns (core result) = columns (core inner) \<and>
       tables (core result) = tables (core inner) \<and>
       joins (core result) = joins (core inner) \<and>
       group_q (core result) = group_q (core inner) \<and>
       having (core result) = having (core inner) \<and>
       order (core result) = order (core inner) \<and>
       limit (core result) = limit (core inner) \<and>
       offset (core result) = offset (core inner) \<and>
       err (core result) = err (core inner) \<and>
       union_q result = union_q inner)"
  by (simp add: Let_def WhereGroup_def addWhereGroup_def upd_upd core_upd union_upd)

subsection \<open>Hooks and follow-up queries of \<^verbatim>\<open>Scan\<close>\<close>



lemma selectJoins_prefix:
  "\<exists>k. fst (selectJoins db js) = map JoinSelect (take k (followUps js)) \<and>
       (snd (selectJoins db js) = None \<longrightarrow> k = length (followUps js))"
proof (induction db js rule: selectJoins.induct)
  case (1 db)
  show ?case by simp
next
  case (2 db ty nm cols flds sub js)
  let ?j = "Join ty nm cols flds sub"
  show ?case
  proof (cases "ty = HasOneRelation \<or> ty = BelongsToRelation")
    case True
    from "2.IH"(1) [OF True] obtain k where
      k: "fst (selectJoins db sub) = map JoinSelect (take k (followUps sub))"
      and kn: "snd (selectJoins db sub) = None \<longrightarrow> k = length (followUps sub)"
      by (elim exE conjE)
    obtain tr e where sub: "selectJoins db sub = (tr, e)" by (cases "selectJoins db sub")
    show ?thesis
    proof (cases e)
      case (Some x)
      have "take (min k (length (followUps sub))) (followUps sub @ followUps js) =
              take k (followUps sub)"
        by (simp add: min_def)
      with True sub Some k show ?thesis
        by (intro exI [of _ "min k (length (followUps sub))"]) simp
    next
      case None
      with sub kn have kl: "k = length (followUps sub)" by simp
      with k sub have tr: "tr = map JoinSelect (followUps sub)" by simp
      have "\<exists>k. fst (selectJoins db js) = map JoinSelect (take k (followUps js)) \<and>
                (snd (selectJoins db js) = None \<longrightarrow> k = length (followUps js))"
      proof (rule "2.IH"(2))
        show "selectJoins db sub =
                (if ty = HasOneRelation \<or> ty = BelongsToRelation then selectJoins db sub
                 else ([JoinSelect ?j], join_Select db ?j))"
          using True by simp
        show "(tr, e) = selectJoins db sub" using sub by simp
        show "e = None" by fact
      qed
      then obtain k' where
        k': "fst (selectJoins db js) = map JoinSelect (take k' (followUps js))"
        and kn': "snd (selectJoins db js) = None \<longrightarrow> k' = length (followUps js)"
        by auto
      obtain tr' e' where js: "selectJoins db js = (tr', e')" by (cases "selectJoins db js")
      with True sub None tr k' kn' show ?thesis
        by (intro exI [of _ "length (followUps sub) + k'"]) auto
    qed
  next
    case False
    show ?thesis
    proof (cases "join_Select db ?j")
      case (Some x)
      with False show ?thesis
        by (intro exI [of _ 1]) simp
    next
      case None
      have "\<exists>k. fst (selectJoins db js) = map JoinSelect (take k (followUps js)) \<and>
                (snd (selectJoins db js) = None \<longrightarrow> k = length (followUps js))"
      proof (rule "2.IH"(2))
        show "([JoinSelect ?j], join_Select db ?j) =
                (if ty = HasOneRelation \<or> ty = BelongsToRelation then selectJoins db sub
                 else ([JoinSelect ?j], join_Select db ?j))"
          using False by simp
        show "([JoinSelect ?j], join_Select db ?j) = ([JoinSelect ?j], join_Select db ?j)" ..
        show "join_Select db ?j = None" by fact
      qed
      then obtain k' where
        k': "fst (selectJoins db js) = map JoinSelect (take k' (followUps js))"
        and kn': "snd (selectJoins db js) = None \<longrightarrow> k' = length (followUps js)"
        by auto
      obtain tr' e' where js: "selectJoins db js = (tr', e')" by (cases "selectJoins db js")
      with False None k' kn' show ?thesis
        by (intro exI [of _ "Suc k'"]) auto
    qed
  qed
qed


lemma selectJoins_events:
  assumes "selectJoins db js = (tr, e)" and "x \<in> set tr"
  shows "\<exists>j \<in> set (followUps js). x = JoinSelect j"
proof -
  from selectJoins_prefix [of db js] assms(1) obtain k where
    "tr = map JoinSelect (take k (followUps js))" by auto
  with assms(2) show ?thesis
    by (auto dest: in_set_takeD)
qed

lemma selectJoins_phase:
  "selectJoins db js = (tr, e) \<Longrightarrow> x \<in> set tr \<Longrightarrow> phase x = 4"
  by (drule (1) selectJoins_events) auto

lemma selectJoins_complete:
  "selectJoins db js = (tr, None) \<Longrightarrow> tr = map JoinSelect (followUps js)"
  using selectJoins_prefix [of db js] by auto

lemma selectJoins_ok:
  "\<forall>j \<in> set (followUps js). join_Select db j = None \<Longrightarrow>
     selectJoins db js = (map JoinSelect (followUps js), None)"
proof (induction db js rule: selectJoins.induct)
  case (1 db)
  show ?case by simp
next
  case (2 db ty nm cols flds sub js)
  let ?j = "Join ty nm cols flds sub"
  show ?case
  proof (cases "ty = HasOneRelation \<or> ty = BelongsToRelation")
    case True
    with "2.prems" have s: "selectJoins db sub = (map JoinSelect (followUps sub), None)"
      by (intro "2.IH"(1)) auto
    have "selectJoins db js = (map JoinSelect (followUps js), None)"
    proof (rule "2.IH"(2))
      show "selectJoins db sub =
              (if ty = HasOneRelation \<or> ty = BelongsToRelation then selectJoins db sub
               else ([JoinSelect ?j], join_Select db ?j))"
        using True by simp
      show "(map JoinSelect (followUps sub), None) = selectJoins db sub" using s by simp
      show "None = None" ..
      show "\<forall>j\<in>set (followUps js). join_Select db j = None" using "2.prems" by simp
    qed
    with True s show ?thesis by simp
  next
    case False
    with "2.prems" have n: "join_Select db ?j = None" by simp
    have "selectJoins db js = (map JoinSelect (followUps js), None)"
    proof (rule "2.IH"(2))
      show "([JoinSelect ?j], join_Select db ?j) =
              (if ty = HasOneRelation \<or> ty = BelongsToRelation then selectJoins db sub
               else ([JoinSelect ?j], join_Select db ?j))"
        using False by simp
      show "([JoinSelect ?j], join_Select db ?j) = ([JoinSelect ?j], join_Select db ?j)" ..
      show "join_Select db ?j = None" by fact
      show "\<forall>j\<in>set (followUps js). join_Select db j = None" using "2.prems" by simp
    qed
    with False n show ?thesis by simp
  qed
qed




lemma scanCap_count [simp]:
  "count_list (scanCap q m) BeforeSelectHook = 0"
  "count_list (scanCap q m) AfterSelectHook = 0"
  "count_list (scanCap q m) Render = 0"
  by (simp_all add: scanCap_def)


































end
